theory Spec2Isabelle
  imports Complex_Main
begin

section \<open>Data model\<close>

text \<open>
  The TypeScript sources share the types
  \<^verbatim>\<open>type Player = 'X' | 'O' | null; type Board = Player[]; type GameResult = 'X' | 'O' | 'draw' | null\<close>.
  The marks 'X' and 'O' are \<open>MarkX\<close> and \<open>MarkO\<close>. A cell is \<open>None\<close> for \<^verbatim>\<open>null\<close> and \<open>Some m\<close> for a mark; a board is the list of its cells.
\<close>

datatype mark = MarkX | MarkO

type_synonym cell = "mark option"

type_synonym board = "cell list"

datatype outcome = Winner mark | Draw

type_synonym gameResult = "outcome option"

text \<open>
  Reading \<^verbatim>\<open>board[i]\<close>: inside the array it is the cell, outside it is \<^verbatim>\<open>undefined\<close>
  (the outer \<open>None\<close>), which is falsy and different from \<^verbatim>\<open>null\<close> and from every mark.
\<close>

definition jsIndex :: "board \<Rightarrow> nat \<Rightarrow> cell option" where
  "jsIndex b i = (if i < length b then Some (b ! i) else None)"

definition emptyBoard :: board where
  "emptyBoard = replicate 9 None"

section \<open>Rules engine: the winner evaluation\<close>

text \<open>
  The loop of every \<^verbatim>\<open>checkWinner\<close>:
  \<^verbatim>\<open>for (const line of lines) { const [a, b, c] = line;
     if (board[a] && board[a] === board[b] && board[a] === board[c]) return { winner: board[a], line }; }\<close>
\<close>

definition lineTest :: "board \<Rightarrow> nat list \<Rightarrow> mark option" where
  "lineTest b l =
     (case jsIndex b (l ! 0) of
        Some (Some m) \<Rightarrow>
          (if jsIndex b (l ! 0) = jsIndex b (l ! 1) \<and> jsIndex b (l ! 0) = jsIndex b (l ! 2)
           then Some m else None)
      | _ \<Rightarrow> None)"

fun scanLines :: "board \<Rightarrow> nat list list \<Rightarrow> (mark \<times> nat list) option" where
  "scanLines b [] = None"
| "scanLines b (l # ls) =
     (case lineTest b l of Some m \<Rightarrow> Some (m, l) | None \<Rightarrow> scanLines b ls)"

text \<open>After the loop: \<^verbatim>\<open>if (board.every(cell => cell !== null)) return draw; return null\<close>.\<close>

definition afterScan :: "board \<Rightarrow> (mark \<times> nat list) option \<Rightarrow> gameResult \<times> nat list option" where
  "afterScan b r =
     (case r of
        Some (m, l) \<Rightarrow> (Some (Winner m), Some l)
      | None \<Rightarrow> if list_all (\<lambda>c. c \<noteq> None) b then (Some Draw, None) else (None, None))"

text \<open>\<^verbatim>\<open>AIService.checkWinner\<close>.\<close>

definition checkWinner_AIService :: "board \<Rightarrow> gameResult \<times> nat list option" where
  "checkWinner_AIService b =
     afterScan b (scanLines b
       [[0, 1, 2], [3, 4, 5], [6, 7, 8],
        [0, 3, 6], [1, 4, 7], [2, 5, 8],
        [0, 4, 8], [2, 4, 6]])"

text \<open>\<^verbatim>\<open>checkWinner\<close> of the component \<^verbatim>\<open>EnhancedGameBoard\<close>.\<close>

definition checkWinner_EnhancedGameBoard :: "board \<Rightarrow> gameResult \<times> nat list option" where
  "checkWinner_EnhancedGameBoard b =
     afterScan b (scanLines b
       [[0, 1, 2], [3, 4, 5], [6, 7, 8],
        [0, 3, 6], [1, 4, 7], [2, 5, 8],
        [0, 4, 8], [2, 4, 6]])"

text \<open>\<^verbatim>\<open>checkWinner\<close> of the component \<^verbatim>\<open>GameBoard\<close>.\<close>

definition checkWinner_GameBoard :: "board \<Rightarrow> gameResult \<times> nat list option" where
  "checkWinner_GameBoard b =
     afterScan b (scanLines b
       [[0, 1, 2], [3, 4, 5], [6, 7, 8],
        [0, 3, 6], [1, 4, 7], [2, 5, 8],
        [0, 4, 8], [2, 4, 6]])"

text \<open>\<^verbatim>\<open>OnlineGameService.checkWinner\<close>.\<close>

definition checkWinner_OnlineGameService :: "board \<Rightarrow> gameResult \<times> nat list option" where
  "checkWinner_OnlineGameService b =
     afterScan b (scanLines b
       [[0, 1, 2], [3, 4, 5], [6, 7, 8],
        [0, 3, 6], [1, 4, 7], [2, 5, 8],
        [0, 4, 8], [2, 4, 6]])"

section \<open>JavaScript numbers\<close>

text \<open>
  A finite JavaScript number is an IEEE 754 double; the model takes it as the rational it
  denotes. \<open>jsRound\<close> rounds a rational to the nearest double, ties to the even significand
  (53 bits; every number here lies in the normal range). A decimal literal is the rounding
  of its value, and each arithmetic operation rounds its exact result. Comparisons of
  doubles are exact. \<open>bitlen n\<close> is the number of binary digits of a positive integer, and
  \<open>floorLog2 x\<close> the exponent \<open>e\<close> with \<open>2^e \<le> x < 2^(e+1)\<close> of a positive rational.
\<close>

function bitlen :: "int \<Rightarrow> int" where
  "bitlen n = (if n \<le> 0 then 0 else 1 + bitlen (n div 2))"
  by pat_completeness auto
termination
  by (relation "measure nat") auto

declare bitlen.simps [simp del]

definition floorLog2 :: "rat \<Rightarrow> int" where
  "floorLog2 x = (if 1 \<le> x then bitlen \<lfloor>x\<rfloor> - 1 else - bitlen (\<lceil>1 / x\<rceil> - 1))"

definition jsRound :: "rat \<Rightarrow> rat" where
  "jsRound x =
     (if x = 0 then 0
      else
        let ulp = power_int 2 (floorLog2 \<bar>x\<bar> - 52);
            t = \<bar>x\<bar> / ulp;
            n = \<lfloor>t\<rfloor>;
            f = t - of_int n;
            n' = (if f < 1 / 2 then n
                  else if 1 / 2 < f then n + 1
                  else if even n then n else n + 1)
        in sgn x * of_int n' * ulp)"

definition jsLit :: "rat \<Rightarrow> rat" where
  "jsLit x = jsRound x"

definition jsAdd :: "rat \<Rightarrow> rat \<Rightarrow> rat" where
  "jsAdd a b = jsRound (a + b)"

definition jsSub :: "rat \<Rightarrow> rat \<Rightarrow> rat" where
  "jsSub a b = jsRound (a - b)"

definition jsMul :: "rat \<Rightarrow> rat \<Rightarrow> rat" where
  "jsMul a b = jsRound (a * b)"

definition jsDiv :: "rat \<Rightarrow> rat \<Rightarrow> rat" where
  "jsDiv a b = jsRound (a / b)"

text \<open>
  Scores of the searches: JavaScript numbers that are integers, \<^verbatim>\<open>-Infinity\<close> or
  \<^verbatim>\<open>Infinity\<close>, with their order; \<^verbatim>\<open>Math.max\<close> and \<^verbatim>\<open>Math.min\<close> are \<open>max\<close> and \<open>min\<close>.
\<close>

datatype num = NegInf | Fin int | PosInf

instantiation num :: linorder
begin

fun less_num :: "num \<Rightarrow> num \<Rightarrow> bool" where
  "less_num NegInf NegInf = False"
| "less_num NegInf (Fin b) = True"
| "less_num NegInf PosInf = True"
| "less_num (Fin a) NegInf = False"
| "less_num (Fin a) (Fin b) = (a < b)"
| "less_num (Fin a) PosInf = True"
| "less_num PosInf y = False"

definition less_eq_num :: "num \<Rightarrow> num \<Rightarrow> bool" where
  "less_eq_num x y = (x = y \<or> x < y)"

instance
proof
  fix x y z :: num
  show "(x < y) = (x \<le> y \<and> \<not> y \<le> x)"
    by (cases x; cases y) (auto simp: less_eq_num_def)
  show "x \<le> x"
    by (simp add: less_eq_num_def)
  show "x \<le> y \<Longrightarrow> y \<le> z \<Longrightarrow> x \<le> z"
    by (cases x; cases y; cases z) (auto simp: less_eq_num_def)
  show "x \<le> y \<Longrightarrow> y \<le> x \<Longrightarrow> x = y"
    by (cases x; cases y) (auto simp: less_eq_num_def)
  show "x \<le> y \<or> y \<le> x"
    by (cases x; cases y) (auto simp: less_eq_num_def)
qed

end

text \<open>
  The source of randomness: \<^verbatim>\<open>Math.random()\<close> is the sequence \<open>rs\<close> of numbers in
  \<open>[0, 1)\<close>, read at a counter that every draw advances.
  \<^verbatim>\<open>xs[Math.floor(Math.random() * xs.length)]\<close> is \<open>jsPick\<close>; with a draw in \<open>[0, 1)\<close> the
  index is inside \<open>xs\<close>.
\<close>

type_synonym rng = "nat \<Rightarrow> rat"

definition jsPick :: "nat list \<Rightarrow> rat \<Rightarrow> int" where
  "jsPick xs r = int (xs ! nat \<lfloor>jsMul r (of_nat (length xs))\<rfloor>)"

section \<open>Move policy of \<^verbatim>\<open>AIService\<close>\<close>

record aiMove =
  position :: int
  confidence :: rat
  reasoning :: string

record aiGameState =
  aiBoard :: board
  aiCurrentPlayer :: cell
  aiMoveCount :: int
  aiGameResult :: gameResult

datatype difficulty = Easy | Medium | Hard

text \<open>\<^verbatim>\<open>board.map((cell, index) => cell === null ? index : null).filter(val => val !== null)\<close>\<close>

definition getEmptyCells_AIService :: "board \<Rightarrow> nat list" where
  "getEmptyCells_AIService b = filter (\<lambda>i. b ! i = None) [0..<length b]"

text \<open>
  The searches write \<^verbatim>\<open>board[move] = player\<close>, recurse and restore \<^verbatim>\<open>board[move] = null\<close>;
  the model passes the updated board down instead. Every \<open>move\<close> comes from the empty cells,
  so it is inside the board.
\<close>

definition findWinningMove_AIService :: "board \<Rightarrow> mark \<Rightarrow> int" where
  "findWinningMove_AIService b player =
     (case find (\<lambda>move. fst (checkWinner_AIService (b[move := Some player])) = Some (Winner player))
                (getEmptyCells_AIService b) of
        Some move \<Rightarrow> int move
      | None \<Rightarrow> - 1)"

definition findForkMove :: "board \<Rightarrow> mark \<Rightarrow> int" where
  "findForkMove b player =
     (case find (\<lambda>move.
                   let b' = b[move := Some player];
                       winningMoves = length (filter
                         (\<lambda>testMove. fst (checkWinner_AIService (b'[testMove := Some player])) = Some (Winner player))
                         (getEmptyCells_AIService b'))
                   in 2 \<le> winningMoves)
                (getEmptyCells_AIService b) of
        Some move \<Rightarrow> int move
      | None \<Rightarrow> - 1)"

text \<open>
  \<^verbatim>\<open>getStrategicMove\<close>; its callers have checked that an empty cell exists, so the last
  \<^verbatim>\<open>emptyCells[0]\<close> is defined.
\<close>

definition getStrategicMove :: "rng \<Rightarrow> nat \<Rightarrow> board \<Rightarrow> int \<Rightarrow> int \<times> nat" where
  "getStrategicMove rs k b moveCount =
     (let emptyCells = getEmptyCells_AIService b;
          corners = filter (\<lambda>i. jsIndex b i = Some None) [0, 2, 6, 8];
          edges = filter (\<lambda>i. jsIndex b i = Some None) [1, 3, 5, 7]
      in
        if moveCount \<le> 1 \<and> jsIndex b 4 = Some None then (4, k)
        else if moveCount \<le> 1 \<and> corners \<noteq> [] then (jsPick corners (rs k), k + 1)
        else if findForkMove b MarkO \<noteq> - 1 then (findForkMove b MarkO, k)
        else if findForkMove b MarkX \<noteq> - 1 then (findForkMove b MarkX, k)
        else if jsIndex b 4 = Some None then (4, k)
        else if corners \<noteq> [] then (jsPick corners (rs k), k + 1)
        else if edges \<noteq> [] then (jsPick edges (rs k), k + 1)
        else (int (hd emptyCells), k))"

text \<open>
  The two loops of \<^verbatim>\<open>minimaxWithPruning\<close>, over the empty cells, with the early exit
  \<^verbatim>\<open>if (beta <= alpha) break\<close>. \<open>f move alpha\<close> (\<open>f move beta\<close>) is the recursive call on the
  board with the move placed.
\<close>

fun maxLoop :: "(nat \<Rightarrow> num \<Rightarrow> int \<times> num) \<Rightarrow> nat list \<Rightarrow> int \<Rightarrow> num \<Rightarrow> num \<Rightarrow> num \<Rightarrow> int \<times> num" where
  "maxLoop f [] bestMove maxScore alpha beta = (bestMove, maxScore)"
| "maxLoop f (move # rest) bestMove maxScore alpha beta =
     (let result = f move alpha;
          bestMove' = (if maxScore < snd result then int move else bestMove);
          maxScore' = (if maxScore < snd result then snd result else maxScore);
          alpha' = max alpha (snd result)
      in if beta \<le> alpha' then (bestMove', maxScore')
         else maxLoop f rest bestMove' maxScore' alpha' beta)"

fun minLoop :: "(nat \<Rightarrow> num \<Rightarrow> int \<times> num) \<Rightarrow> nat list \<Rightarrow> int \<Rightarrow> num \<Rightarrow> num \<Rightarrow> num \<Rightarrow> int \<times> num" where
  "minLoop f [] bestMove minScore alpha beta = (bestMove, minScore)"
| "minLoop f (move # rest) bestMove minScore alpha beta =
     (let result = f move beta;
          bestMove' = (if snd result < minScore then int move else bestMove);
          minScore' = (if snd result < minScore then snd result else minScore);
          beta' = min beta (snd result)
      in if beta' \<le> alpha then (bestMove', minScore')
         else minLoop f rest bestMove' minScore' alpha beta')"

lemma maxLoop_cong [fundef_cong]:
  "ms = ms' \<Longrightarrow> (\<And>m a. m \<in> set ms' \<Longrightarrow> f m a = g m a) \<Longrightarrow>
   maxLoop f ms bm s a b = maxLoop g ms' bm s a b"
  by (induction g ms' bm s a b arbitrary: ms rule: maxLoop.induct) (auto simp: Let_def)

lemma minLoop_cong [fundef_cong]:
  "ms = ms' \<Longrightarrow> (\<And>m a. m \<in> set ms' \<Longrightarrow> f m a = g m a) \<Longrightarrow>
   minLoop f ms bm s a b = minLoop g ms' bm s a b"
  by (induction g ms' bm s a b arbitrary: ms rule: minLoop.induct) (auto simp: Let_def)

definition emptyCount :: "board \<Rightarrow> nat" where
  "emptyCount b = length (filter (\<lambda>c. c = None) b)"

lemma emptyCount_update:
  "i < length b \<Longrightarrow> b ! i = None \<Longrightarrow> emptyCount (b[i := Some p]) < emptyCount b"
proof (induction b arbitrary: i)
  case Nil
  then show ?case by simp
next
  case (Cons c cs)
  then show ?case by (cases i) (auto simp: emptyCount_def)
qed

function minimaxWithPruning :: "board \<Rightarrow> int \<Rightarrow> bool \<Rightarrow> num \<Rightarrow> num \<Rightarrow> int \<times> num" where
  "minimaxWithPruning b depth isMaximizing alpha beta =
     (case fst (checkWinner_AIService b) of
        Some (Winner MarkO) \<Rightarrow> (- 1, Fin (10 - depth))
      | Some (Winner MarkX) \<Rightarrow> (- 1, Fin (depth - 10))
      | Some Draw \<Rightarrow> (- 1, Fin 0)
      | None \<Rightarrow>
          if isMaximizing
          then maxLoop (\<lambda>move a. minimaxWithPruning (b[move := Some MarkO]) (depth + 1) False a beta)
                 (getEmptyCells_AIService b) (- 1) NegInf alpha beta
          else minLoop (\<lambda>move bt. minimaxWithPruning (b[move := Some MarkX]) (depth + 1) True alpha bt)
                 (getEmptyCells_AIService b) (- 1) PosInf alpha beta)"
  by pat_completeness auto
termination
  by (relation "measure (\<lambda>(b, depth, isMaximizing, alpha, beta). emptyCount b)")
     (auto simp: getEmptyCells_AIService_def emptyCount_update)


text \<open>\<^verbatim>\<open>getEasyMove\<close>, \<^verbatim>\<open>getMediumMove\<close>, \<^verbatim>\<open>getHardMove\<close> and \<^verbatim>\<open>getMove\<close>.\<close>

definition getEasyMove :: "rng \<Rightarrow> nat \<Rightarrow> aiGameState \<Rightarrow> aiMove \<times> nat" where
  "getEasyMove rs k gameState =
     (let b = aiBoard gameState;
          emptyCells = getEmptyCells_AIService b
      in
        if length emptyCells = 0
        then (\<lparr>position = - 1, confidence = 0, reasoning = ''No moves available''\<rparr>, k)
        else
          let winMove = findWinningMove_AIService b MarkO;
              k1 = (if winMove \<noteq> - 1 then k + 1 else k)
          in
            if winMove \<noteq> - 1 \<and> rs k < jsLit (15 / 100)
            then (\<lparr>position = winMove, confidence = jsLit (3 / 10), reasoning = ''Lucky win!''\<rparr>, k1)
            else
              let blockMove = findWinningMove_AIService b MarkX;
                  k2 = (if blockMove \<noteq> - 1 then k1 + 1 else k1)
              in
                if blockMove \<noteq> - 1 \<and> rs k1 < jsLit (4 / 10)
                then (\<lparr>position = blockMove, confidence = jsLit (3 / 10), reasoning = ''Defensive block''\<rparr>, k2)
                else (\<lparr>position = jsPick emptyCells (rs k2), confidence = jsLit (1 / 10),
                       reasoning = ''Exploring move''\<rparr>, k2 + 1))"

definition getMediumMove :: "rng \<Rightarrow> nat \<Rightarrow> aiGameState \<Rightarrow> aiMove \<times> nat" where
  "getMediumMove rs k gameState =
     (let b = aiBoard gameState;
          moveCount = aiMoveCount gameState;
          emptyCells = getEmptyCells_AIService b
      in
        if length emptyCells = 0
        then (\<lparr>position = - 1, confidence = 0, reasoning = ''No moves available''\<rparr>, k)
        else
          let winMove = findWinningMove_AIService b MarkO in
            if winMove \<noteq> - 1
            then (\<lparr>position = winMove, confidence = jsLit (9 / 10), reasoning = ''Winning move!''\<rparr>, k)
            else
              let blockMove = findWinningMove_AIService b MarkX;
                  k1 = (if blockMove \<noteq> - 1 then k + 1 else k)
              in
                if blockMove \<noteq> - 1 \<and> rs k < jsLit (85 / 100)
                then (\<lparr>position = blockMove, confidence = jsLit (8 / 10), reasoning = ''Blocking opponent''\<rparr>, k1)
                else
                  let strategic = getStrategicMove rs (k1 + 1) b moveCount in
                    if rs k1 < jsLit (6 / 10) \<and> fst strategic \<noteq> - 1
                    then (\<lparr>position = fst strategic, confidence = jsLit (6 / 10),
                           reasoning = ''Strategic positioning''\<rparr>, snd strategic)
                    else
                      let k2 = (if rs k1 < jsLit (6 / 10) then snd strategic else k1 + 1) in
                        (\<lparr>position = jsPick emptyCells (rs k2), confidence = jsLit (3 / 10),
                          reasoning = ''Exploring options''\<rparr>, k2 + 1))"

definition getHardMove :: "rng \<Rightarrow> nat \<Rightarrow> aiGameState \<Rightarrow> aiMove \<times> nat" where
  "getHardMove rs k gameState =
     (let b = aiBoard gameState;
          moveCount = aiMoveCount gameState;
          emptyCells = getEmptyCells_AIService b
      in
        if length emptyCells = 0
        then (\<lparr>position = - 1, confidence = 0, reasoning = ''No moves available''\<rparr>, k)
        else
          let winMove = findWinningMove_AIService b MarkO in
            if winMove \<noteq> - 1
            then (\<lparr>position = winMove, confidence = jsLit (95 / 100), reasoning = ''Winning move!''\<rparr>, k)
            else
              let blockMove = findWinningMove_AIService b MarkX;
                  k1 = (if blockMove \<noteq> - 1 then k + 1 else k)
              in
                if blockMove \<noteq> - 1 \<and> rs k < jsLit (95 / 100)
                then (\<lparr>position = blockMove, confidence = jsLit (9 / 10), reasoning = ''Blocking opponent''\<rparr>, k1)
                else
                  let bestMove = minimaxWithPruning b 9 True NegInf PosInf in
                    if rs k1 < jsLit (9 / 10) \<and> fst bestMove \<noteq> - 1
                    then (\<lparr>position = fst bestMove, confidence = jsLit (95 / 100),
                           reasoning = ''Optimal move calculated''\<rparr>, k1 + 1)
                    else
                      let strategic = getStrategicMove rs (k1 + 1) b moveCount in
                        if fst strategic \<noteq> - 1
                        then (\<lparr>position = fst strategic, confidence = jsLit (7 / 10),
                               reasoning = ''Strategic positioning''\<rparr>, snd strategic)
                        else (\<lparr>position = int (hd emptyCells), confidence = jsLit (5 / 10),
                               reasoning = ''Safe move''\<rparr>, snd strategic))"

definition getMove :: "difficulty \<Rightarrow> rng \<Rightarrow> nat \<Rightarrow> board \<Rightarrow> int \<Rightarrow> aiMove \<times> nat" where
  "getMove d rs k b moveCount =
     (let gameState = \<lparr>aiBoard = b, aiCurrentPlayer = Some MarkO, aiMoveCount = moveCount,
                        aiGameResult = fst (checkWinner_AIService b)\<rparr>
      in case d of
           Easy \<Rightarrow> getEasyMove rs k gameState
         | Medium \<Rightarrow> getMediumMove rs k gameState
         | Hard \<Rightarrow> getHardMove rs k gameState)"

section \<open>Move policy of the component \<^verbatim>\<open>GameBoard\<close>\<close>

datatype gameMode = Single | TwoPlayer | Online

record aiPersonality =
  thinkingTime :: nat
  blunderChance :: rat
  targetWinRate :: rat

text \<open>The table \<^verbatim>\<open>AIPersonalityService.personalities\<close> (names, avatars and descriptions left out).\<close>

definition personalities :: "difficulty \<Rightarrow> aiPersonality" where
  "personalities d =
     (case d of
        Easy \<Rightarrow> \<lparr>thinkingTime = 800, blunderChance = jsLit (15 / 100), targetWinRate = jsLit (40 / 100)\<rparr>
      | Medium \<Rightarrow> \<lparr>thinkingTime = 1000, blunderChance = jsLit (8 / 100), targetWinRate = jsLit (60 / 100)\<rparr>
      | Hard \<Rightarrow> \<lparr>thinkingTime = 1200, blunderChance = jsLit (3 / 100), targetWinRate = jsLit (80 / 100)\<rparr>)"

record config =
  gameMode :: gameMode
  difficulty :: difficulty
  playerGoesFirst :: bool

text \<open>\<^verbatim>\<open>getStartingPlayer\<close> and \<^verbatim>\<open>getPlayerSymbols\<close>.\<close>

definition getStartingPlayer :: "config \<Rightarrow> mark" where
  "getStartingPlayer cfg = (if gameMode cfg = Single then MarkX else MarkX)"

definition humanSymbol :: "config \<Rightarrow> mark" where
  "humanSymbol cfg =
     (if gameMode cfg = Single then (if playerGoesFirst cfg then MarkX else MarkO) else MarkX)"

definition aiSymbol :: "config \<Rightarrow> mark" where
  "aiSymbol cfg =
     (if gameMode cfg = Single then (if playerGoesFirst cfg then MarkO else MarkX) else MarkO)"

text \<open>\<^verbatim>\<open>for (let i = 0; i < 9; i++) if (board[i] === null) emptyCells.push(i)\<close>\<close>

definition getEmptyCells_GameBoard :: "board \<Rightarrow> nat list" where
  "getEmptyCells_GameBoard b = filter (\<lambda>i. jsIndex b i = Some None) [0..<9]"

definition isWinningMove :: "board \<Rightarrow> nat \<Rightarrow> mark \<Rightarrow> bool" where
  "isWinningMove b pos player =
     (fst (checkWinner_GameBoard (b[pos := Some player])) = Some (Winner player))"

definition findWinningMove_GameBoard :: "board \<Rightarrow> mark \<Rightarrow> nat option" where
  "findWinningMove_GameBoard b player =
     find (\<lambda>cell. isWinningMove b cell player) (getEmptyCells_GameBoard b)"

function minimax :: "mark \<Rightarrow> mark \<Rightarrow> board \<Rightarrow> int \<Rightarrow> bool \<Rightarrow> num" where
  "minimax ai hu b depth isMaximizing =
     (let winner = fst (checkWinner_GameBoard b) in
        if winner = Some (Winner ai) then Fin (10 - depth)
        else if winner = Some (Winner hu) then Fin (depth - 10)
        else if winner = Some Draw then Fin 0
        else if isMaximizing
        then foldl (\<lambda>maxEval cell. max maxEval (minimax ai hu (b[cell := Some ai]) (depth + 1) False))
               NegInf (getEmptyCells_GameBoard b)
        else foldl (\<lambda>minEval cell. min minEval (minimax ai hu (b[cell := Some hu]) (depth + 1) True))
               PosInf (getEmptyCells_GameBoard b))"
  by pat_completeness auto
termination
  by (relation "measure (\<lambda>(ai, hu, b, depth, isMaximizing). emptyCount b)")
     (auto simp: getEmptyCells_GameBoard_def jsIndex_def emptyCount_update split: if_splits)

definition getBestMove :: "mark \<Rightarrow> mark \<Rightarrow> board \<Rightarrow> int" where
  "getBestMove ai hu b =
     fst (foldl (\<lambda>(bestMove, bestValue) cell.
                   let moveValue = minimax ai hu (b[cell := Some ai]) 0 False
                   in if bestValue < moveValue then (int cell, moveValue) else (bestMove, bestValue))
                (- 1, NegInf) (getEmptyCells_GameBoard b))"

definition getSuboptimalMove :: "rng \<Rightarrow> nat \<Rightarrow> board \<Rightarrow> int \<times> nat" where
  "getSuboptimalMove rs k b =
     (let emptyCells = getEmptyCells_GameBoard b;
          edges = filter (\<lambda>i. jsIndex b i = Some None) [1, 3, 5, 7];
          k1 = (if 0 < length edges then k + 1 else k)
      in if 0 < length edges \<and> rs k < jsLit (7 / 10)
         then (jsPick edges (rs k1), k1 + 1)
         else (jsPick emptyCells (rs k1), k1 + 1))"


text \<open>
  \<^verbatim>\<open>getAiMove\<close>. \<open>aiShouldTryToWin\<close> is the component's state of that name; the blunder
  chance comes from the personality of the difficulty.
\<close>

definition getAiMove :: "config \<Rightarrow> bool \<Rightarrow> rng \<Rightarrow> nat \<Rightarrow> board \<Rightarrow> int \<times> nat" where
  "getAiMove cfg aiShouldTryToWin rs k b =
     (let emptyCells = getEmptyCells_GameBoard b;
          ai = aiSymbol cfg;
          hu = humanSymbol cfg
      in
        if length emptyCells = 0 then (- 1, k)
        else if rs k < blunderChance (personalities (difficulty cfg))
        then (jsPick emptyCells (rs (k + 1)), k + 2)
        else if \<not> aiShouldTryToWin
        then
          (let blockingMove = findWinningMove_GameBoard b hu;
               k1 = (if blockingMove \<noteq> None then k + 2 else k + 1)
           in if blockingMove \<noteq> None \<and> rs (k + 1) < jsLit (4 / 10)
              then (int (the blockingMove), k1)
              else getSuboptimalMove rs k1 b)
        else
          (case difficulty cfg of
             Easy \<Rightarrow>
               (case findWinningMove_GameBoard b ai of
                  Some easyWinningMove \<Rightarrow> (int easyWinningMove, k + 1)
                | None \<Rightarrow>
                    let easyBlockingMove = findWinningMove_GameBoard b hu;
                        k1 = (if easyBlockingMove \<noteq> None then k + 2 else k + 1)
                    in if easyBlockingMove \<noteq> None \<and> rs (k + 1) < jsLit (3 / 10)
                       then (int (the easyBlockingMove), k1)
                       else if rs k1 < jsLit (75 / 100)
                       then (jsPick emptyCells (rs (k1 + 1)), k1 + 2)
                       else getSuboptimalMove rs (k1 + 1) b)
           | Medium \<Rightarrow>
               (case findWinningMove_GameBoard b ai of
                  Some mediumWinningMove \<Rightarrow> (int mediumWinningMove, k + 1)
                | None \<Rightarrow>
                    let mediumBlockingMove = findWinningMove_GameBoard b hu;
                        k1 = (if mediumBlockingMove \<noteq> None then k + 2 else k + 1);
                        corners = filter (\<lambda>i. jsIndex b i = Some None) [0, 2, 6, 8]
                    in if mediumBlockingMove \<noteq> None \<and> rs (k + 1) < jsLit (7 / 10)
                       then (int (the mediumBlockingMove), k1)
                       else if rs k1 < jsLit (4 / 10)
                       then getSuboptimalMove rs (k1 + 1) b
                       else if jsIndex b 4 = Some None then (4, k1 + 1)
                       else if 0 < length corners
                       then (jsPick corners (rs (k1 + 1)), k1 + 2)
                       else (jsPick emptyCells (rs (k1 + 1)), k1 + 2))
           | Hard \<Rightarrow>
               (case findWinningMove_GameBoard b ai of
                  Some hardWinningMove \<Rightarrow> (int hardWinningMove, k + 1)
                | None \<Rightarrow>
                    let hardBlockingMove = findWinningMove_GameBoard b hu;
                        k1 = (if hardBlockingMove \<noteq> None then k + 2 else k + 1)
                    in if hardBlockingMove \<noteq> None \<and> rs (k + 1) < jsLit (95 / 100)
                       then (int (the hardBlockingMove), k1)
                       else if rs k1 < jsLit (15 / 100)
                       then getSuboptimalMove rs (k1 + 1) b
                       else (getBestMove ai hu b, k1 + 1))))"

section \<open>Difficulty calibration: \<^verbatim>\<open>AIPersonalityService\<close>\<close>

record aiStats =
  totalGames :: nat
  aiWins :: nat
  playerWins :: nat
  draws :: nat
  winRate :: rat

text \<open>
  The entries \<^verbatim>\<open>ai-stats-<difficulty>\<close> of \<^verbatim>\<open>localStorage\<close>: \<open>None\<close> when nothing is saved.
\<close>

type_synonym statsStore = "difficulty \<Rightarrow> aiStats option"

definition defaultStats :: aiStats where
  "defaultStats = \<lparr>totalGames = 0, aiWins = 0, playerWins = 0, draws = 0, winRate = 0\<rparr>"

definition getStats :: "statsStore \<Rightarrow> difficulty \<Rightarrow> aiStats" where
  "getStats store d = (case store d of Some saved \<Rightarrow> saved | None \<Rightarrow> defaultStats)"

text \<open>\<^verbatim>\<open>shouldAITryToWin\<close>; \<open>r\<close> is the one \<^verbatim>\<open>Math.random()\<close> that every path draws.\<close>

definition shouldAITryToWin :: "statsStore \<Rightarrow> difficulty \<Rightarrow> rat \<Rightarrow> bool" where
  "shouldAITryToWin store d r =
     (let stats = getStats store d;
          personality = personalities d
      in
        if totalGames stats < 5 then r < targetWinRate personality
        else
          let currentWinRate = winRate stats;
              target = targetWinRate personality
          in
            if jsAdd target (jsLit (1 / 10)) < currentWinRate then r < jsLit (3 / 10)
            else if currentWinRate < jsSub target (jsLit (1 / 10)) then r < jsLit (9 / 10)
            else r < targetWinRate personality)"

text \<open>\<^verbatim>\<open>recordGameResult\<close>; \<open>winner\<close> is \<^verbatim>\<open>'X' | 'O' | 'draw'\<close>.\<close>

definition recordGameResult :: "statsStore \<Rightarrow> difficulty \<Rightarrow> outcome \<Rightarrow> statsStore" where
  "recordGameResult store d winner =
     (let stats = getStats store d;
          stats1 = stats\<lparr>totalGames := totalGames stats + 1\<rparr>;
          stats2 =
            (if winner = Draw then stats1\<lparr>draws := draws stats1 + 1\<rparr>
             else
               let aiWon = (winner = Winner MarkO) in
                 if aiWon then stats1\<lparr>aiWins := aiWins stats1 + 1\<rparr>
                 else stats1\<lparr>playerWins := playerWins stats1 + 1\<rparr>);
          stats3 = stats2\<lparr>winRate :=
            (if 0 < totalGames stats2
             then jsDiv (of_nat (aiWins stats2)) (of_nat (totalGames stats2)) else 0)\<rparr>
      in store(d := Some stats3))"

section \<open>Turn controller: the component \<^verbatim>\<open>GameBoard\<close>\<close>

text \<open>
  The React state of the component, with the interval of the turn timer
  (\<open>gIsTimerRunning\<close>: the interval is set) and the statistics store the personality
  service reads and writes.
\<close>

record gameBoardState =
  gBoard :: board
  gCurrentPlayer :: mark
  gGameResult :: gameResult
  gIsAiThinking :: bool
  gAiThinkingProgress :: nat
  gMoveHistory :: "board list"
  gWinningLine :: "nat list option"
  gAiShouldTryToWin :: bool
  gTurnTimeLeft :: int
  gIsTimerRunning :: bool
  gStats :: statsStore

definition TURN_TIME_LIMIT :: int where
  "TURN_TIME_LIMIT = 3"

definition initialState :: "config \<Rightarrow> statsStore \<Rightarrow> gameBoardState" where
  "initialState cfg store =
     \<lparr>gBoard = replicate 9 None, gCurrentPlayer = getStartingPlayer cfg, gGameResult = None,
      gIsAiThinking = False, gAiThinkingProgress = 0, gMoveHistory = [replicate 9 None],
      gWinningLine = None, gAiShouldTryToWin = True, gTurnTimeLeft = 3,
      gIsTimerRunning = False, gStats = store\<rparr>"

definition isCurrentPlayerHuman :: "config \<Rightarrow> gameBoardState \<Rightarrow> bool" where
  "isCurrentPlayerHuman cfg s =
     (if gameMode cfg = Single then gCurrentPlayer s = humanSymbol cfg else True)"

definition stopTimer :: "gameBoardState \<Rightarrow> gameBoardState" where
  "stopTimer s = s\<lparr>gIsTimerRunning := False\<rparr>"

definition startTimer :: "config \<Rightarrow> gameBoardState \<Rightarrow> gameBoardState" where
  "startTimer cfg s =
     (if gGameResult s \<noteq> None \<or> gIsAiThinking s \<or> \<not> isCurrentPlayerHuman cfg s then s
      else (stopTimer s)\<lparr>gTurnTimeLeft := TURN_TIME_LIMIT, gIsTimerRunning := True\<rparr>)"

definition handleTimeUp :: "config \<Rightarrow> gameBoardState \<Rightarrow> gameBoardState" where
  "handleTimeUp cfg s =
     (let s1 = stopTimer s in
        if gGameResult s1 \<noteq> None then s1
        else if gameMode cfg = Single \<and> gCurrentPlayer s1 = humanSymbol cfg
        then s1\<lparr>gCurrentPlayer := aiSymbol cfg\<rparr>
        else s1\<lparr>gCurrentPlayer := (if gCurrentPlayer s1 = MarkX then MarkO else MarkX)\<rparr>)"

text \<open>
  One firing of the interval that \<^verbatim>\<open>startTimer\<close> sets, every second:
  \<^verbatim>\<open>setTurnTimeLeft(prev => { if (prev <= 1) { handleTimeUp(); return 0; } return prev - 1; })\<close>.
  A cleared interval does not fire.
\<close>

definition timerTick :: "config \<Rightarrow> gameBoardState \<Rightarrow> gameBoardState" where
  "timerTick cfg s =
     (if \<not> gIsTimerRunning s then s
      else if gTurnTimeLeft s \<le> 1 then (handleTimeUp cfg s)\<lparr>gTurnTimeLeft := 0\<rparr>
      else s\<lparr>gTurnTimeLeft := gTurnTimeLeft s - 1\<rparr>)"

text \<open>
  What both move handlers do once \<^verbatim>\<open>checkWinner(newBoard)\<close> has found the game over: set the
  result and the winning line and, in single-player mode, record the result with
  \<^verbatim>\<open>aiPersonalityService.recordGameResult(difficulty, winner)\<close>.
\<close>

definition finishGame :: "config \<Rightarrow> outcome \<Rightarrow> nat list option \<Rightarrow> gameBoardState \<Rightarrow> gameBoardState" where
  "finishGame cfg winner line s =
     s\<lparr>gGameResult := Some winner, gWinningLine := line,
       gStats := (if gameMode cfg = Single then recordGameResult (gStats s) (difficulty cfg) winner
                  else gStats s)\<rparr>"

text \<open>
  \<^verbatim>\<open>handleCellClick(index)\<close>; \<open>index\<close> is the index of a rendered cell, so it is inside
  the board.
\<close>

definition handleCellClick :: "config \<Rightarrow> nat \<Rightarrow> gameBoardState \<Rightarrow> gameBoardState" where
  "handleCellClick cfg index s =
     (if (case jsIndex (gBoard s) index of Some (Some m) \<Rightarrow> True | _ \<Rightarrow> False)
         \<or> gGameResult s \<noteq> None \<or> gIsAiThinking s
      then s
      else
        let s1 = stopTimer s;
            newBoard = (gBoard s1)[index := Some (gCurrentPlayer s1)];
            s2 = s1\<lparr>gBoard := newBoard, gMoveHistory := gMoveHistory s1 @ [newBoard]\<rparr>
        in case checkWinner_GameBoard newBoard of
             (Some winner, line) \<Rightarrow> finishGame cfg winner line s2
           | (None, line) \<Rightarrow>
               if gameMode cfg = Single \<and> gCurrentPlayer s2 = humanSymbol cfg
               then s2\<lparr>gCurrentPlayer := aiSymbol cfg\<rparr>
               else s2\<lparr>gCurrentPlayer := (if gCurrentPlayer s2 = MarkX then MarkO else MarkX)\<rparr>)"

text \<open>
  \<^verbatim>\<open>triggerAiMove(currentBoard)\<close>: what runs at once, and the body of its timeout, which fires
  after the thinking time and commits the move that \<^verbatim>\<open>getAiMove(currentBoard)\<close> returns. The
  timeout runs the \<^verbatim>\<open>getAiMove\<close> of the render that scheduled the move, so
  \<open>aiShouldTryToWin\<close> is the value of the state variable in that render, not the one held
  when the timeout fires; the updates go to the state of that later moment.
\<close>

definition triggerAiMove :: "gameBoardState \<Rightarrow> gameBoardState" where
  "triggerAiMove s = (stopTimer s)\<lparr>gIsAiThinking := True, gAiThinkingProgress := 0\<rparr>"

definition commitAiMove :: "config \<Rightarrow> board \<Rightarrow> int \<Rightarrow> gameBoardState \<Rightarrow> gameBoardState" where
  "commitAiMove cfg currentBoard aiMove s =
     (let s3 =
        (if aiMove \<noteq> - 1
         then
           let newBoard = currentBoard[nat aiMove := Some (aiSymbol cfg)];
               s1 = s\<lparr>gBoard := newBoard, gMoveHistory := gMoveHistory s @ [newBoard]\<rparr>
           in case checkWinner_GameBoard newBoard of
                (Some winner, line) \<Rightarrow> finishGame cfg winner line s1
              | (None, line) \<Rightarrow> s1\<lparr>gCurrentPlayer := humanSymbol cfg\<rparr>
         else s)
      in s3\<lparr>gIsAiThinking := False, gAiThinkingProgress := 0\<rparr>)"

definition aiMoveTimeout :: "config \<Rightarrow> bool \<Rightarrow> rng \<Rightarrow> nat \<Rightarrow> board \<Rightarrow> gameBoardState \<Rightarrow> gameBoardState \<times> nat" where
  "aiMoveTimeout cfg aiShouldTryToWin rs k currentBoard s =
     (let r = getAiMove cfg aiShouldTryToWin rs k currentBoard
      in (commitAiMove cfg currentBoard (fst r) s, snd r))"

text \<open>\<^verbatim>\<open>undoMove\<close>.\<close>

definition undoMove :: "config \<Rightarrow> gameBoardState \<Rightarrow> gameBoardState" where
  "undoMove cfg s =
     (if length (gMoveHistory s) \<le> 1 \<or> gGameResult s \<noteq> None \<or> gIsAiThinking s then s
      else
        let s1 = stopTimer s;
            newHistory1 = butlast (gMoveHistory s1);
            newHistory = (if gameMode cfg = Single \<and> 1 < length newHistory1
                          then butlast newHistory1 else newHistory1);
            previousBoard = last newHistory
        in s1\<lparr>gBoard := previousBoard, gMoveHistory := newHistory,
               gCurrentPlayer := getStartingPlayer cfg, gIsAiThinking := False,
               gAiThinkingProgress := 0, gTurnTimeLeft := TURN_TIME_LIMIT\<rparr>)"

section \<open>Session synchroniser: \<^verbatim>\<open>OnlineGameService\<close>\<close>

datatype connectionStatus = Disconnected | Connecting | Connected | ConnectionError

datatype matchmakingStatus = Idle | Searching | Found | InGame

record onlineGameState =
  oBoard :: board
  oCurrentPlayer :: mark
  oGameResult :: gameResult
  oWinningLine :: "nat list option"
  oMoveHistory :: "board list"

text \<open>
  The fields of the service. A pending timeout is \<open>True\<close>; the opponent is its index in
  \<^verbatim>\<open>demoOpponents\<close>; a room identifier is the string that \<^verbatim>\<open>generateRoomId\<close> made.
\<close>

record onlineService =
  connectionStatus :: connectionStatus
  matchmakingStatus :: matchmakingStatus
  gameState :: "onlineGameState option"
  currentRoomId :: "string option"
  playerSymbol :: "mark option"
  opponent :: "nat option"
  opponentMoveTimeout :: bool
  matchmakingTimeout :: bool

definition newService :: onlineService where
  "newService =
     \<lparr>connectionStatus = Disconnected, matchmakingStatus = Idle, gameState = None,
      currentRoomId = None, playerSymbol = None, opponent = None,
      opponentMoveTimeout = False, matchmakingTimeout = False\<rparr>"

definition freshGame :: onlineGameState where
  "freshGame =
     \<lparr>oBoard = replicate 9 None, oCurrentPlayer = MarkX, oGameResult = None,
      oWinningLine = None, oMoveHistory = [replicate 9 None]\<rparr>"

definition clearOpponentMoveTimeout :: "onlineService \<Rightarrow> onlineService" where
  "clearOpponentMoveTimeout s = s\<lparr>opponentMoveTimeout := False\<rparr>"

definition clearMatchmakingTimeout :: "onlineService \<Rightarrow> onlineService" where
  "clearMatchmakingTimeout s = s\<lparr>matchmakingTimeout := False\<rparr>"

text \<open>\<^verbatim>\<open>connect\<close>: the call, and the timeout that resolves it.\<close>

definition connect :: "onlineService \<Rightarrow> onlineService" where
  "connect s = s\<lparr>connectionStatus := Connecting\<rparr>"

definition connectTimeout :: "onlineService \<Rightarrow> onlineService" where
  "connectTimeout s = s\<lparr>connectionStatus := Connected\<rparr>"

definition disconnect :: "onlineService \<Rightarrow> onlineService" where
  "disconnect s =
     (clearMatchmakingTimeout (clearOpponentMoveTimeout s))
       \<lparr>connectionStatus := Disconnected, matchmakingStatus := Idle, currentRoomId := None,
        opponent := None, playerSymbol := None, gameState := None\<rparr>"

text \<open>
  \<^verbatim>\<open>findMatch\<close>: the call, the search timeout (which picks the opponent and the room) and the
  timeout that starts the game.
\<close>

definition findMatch :: "onlineService \<Rightarrow> onlineService" where
  "findMatch s =
     (if matchmakingStatus s \<noteq> Idle then s
      else if connectionStatus s \<noteq> Connected then s
      else (clearMatchmakingTimeout (s\<lparr>matchmakingStatus := Searching\<rparr>))\<lparr>matchmakingTimeout := True\<rparr>)"

definition searchTimeout :: "nat \<Rightarrow> string \<Rightarrow> onlineService \<Rightarrow> onlineService" where
  "searchTimeout randomOpponent roomId s =
     (if matchmakingStatus s \<noteq> Searching then s
      else s\<lparr>currentRoomId := Some roomId, opponent := Some randomOpponent,
             playerSymbol := Some MarkX, matchmakingStatus := Found,
             gameState := Some freshGame\<rparr>)"

definition startTimeout :: "onlineService \<Rightarrow> onlineService" where
  "startTimeout s = (if matchmakingStatus s = Found then s\<lparr>matchmakingStatus := InGame\<rparr> else s)"

definition cancelMatchmaking :: "onlineService \<Rightarrow> onlineService" where
  "cancelMatchmaking s =
     (clearOpponentMoveTimeout (clearMatchmakingTimeout s))
       \<lparr>matchmakingStatus := Idle, currentRoomId := None, opponent := None,
        playerSymbol := None, gameState := None\<rparr>"

text \<open>\<^verbatim>\<open>makeMove(position)\<close>, with \<open>pos\<close> for the position: the returned boolean and the service afterwards.\<close>

definition makeMove :: "nat \<Rightarrow> onlineService \<Rightarrow> bool \<times> onlineService" where
  "makeMove pos s =
     (case gameState s of
        None \<Rightarrow> (False, s)
      | Some g \<Rightarrow>
          if oGameResult g \<noteq> None then (False, s)
          else if jsIndex (oBoard g) pos \<noteq> Some None then (False, s)
          else if Some (oCurrentPlayer g) \<noteq> playerSymbol s then (False, s)
          else
            let s1 = clearOpponentMoveTimeout s;
                newBoard = (oBoard g)[pos := playerSymbol s1];
                g1 = g\<lparr>oBoard := newBoard, oCurrentPlayer := MarkO,
                        oMoveHistory := oMoveHistory g @ [newBoard]\<rparr>
            in case checkWinner_OnlineGameService (oBoard g1) of
                 (Some winner, line) \<Rightarrow>
                   (True, s1\<lparr>gameState := Some (g1\<lparr>oGameResult := Some winner, oWinningLine := line\<rparr>)\<rparr>)
               | (None, line) \<Rightarrow>
                   (True, s1\<lparr>gameState := Some g1, opponentMoveTimeout := True\<rparr>))"

text \<open>\<^verbatim>\<open>executeOpponentMove\<close>, the body of the opponent's timeout; \<open>r\<close> is its random draw.\<close>

definition executeOpponentMove :: "rat \<Rightarrow> onlineService \<Rightarrow> onlineService" where
  "executeOpponentMove r s =
     (case gameState s of
        None \<Rightarrow> s
      | Some g \<Rightarrow>
          if oGameResult g \<noteq> None then s
          else if oCurrentPlayer g \<noteq> MarkO then s
          else
            let emptyCells = filter (\<lambda>i. oBoard g ! i = None) [0..<length (oBoard g)] in
              if length emptyCells = 0 then s
              else
                let randomPosition = nat (jsPick emptyCells r);
                    newBoard = (oBoard g)[randomPosition := Some MarkO];
                    g1 = g\<lparr>oBoard := newBoard, oCurrentPlayer := MarkX,
                            oMoveHistory := oMoveHistory g @ [newBoard]\<rparr>
                in case checkWinner_OnlineGameService (oBoard g1) of
                     (Some winner, line) \<Rightarrow>
                       s\<lparr>gameState := Some (g1\<lparr>oGameResult := Some winner, oWinningLine := line\<rparr>)\<rparr>
                   | (None, line) \<Rightarrow> s\<lparr>gameState := Some g1\<rparr>)"

definition opponentTimeout :: "rat \<Rightarrow> onlineService \<Rightarrow> onlineService" where
  "opponentTimeout r s =
     (if opponentMoveTimeout s then executeOpponentMove r (s\<lparr>opponentMoveTimeout := False\<rparr>) else s)"

definition resetGame_online :: "onlineService \<Rightarrow> onlineService" where
  "resetGame_online s = (clearOpponentMoveTimeout s)\<lparr>gameState := Some freshGame\<rparr>"

definition leaveGame :: "onlineService \<Rightarrow> onlineService" where
  "leaveGame s =
     (clearMatchmakingTimeout (clearOpponentMoveTimeout s))
       \<lparr>matchmakingStatus := Idle, currentRoomId := None, opponent := None,
        playerSymbol := None, gameState := None\<rparr>"

text \<open>
  The states the service can be in: from a new service, by any sequence of its public
  methods and of its timeouts. The timeouts are allowed to fire at any time, which only adds
  states.
\<close>

inductive reachable :: "onlineService \<Rightarrow> bool" where
  r_new: "reachable newService"
| r_connect: "reachable s \<Longrightarrow> reachable (connect s)"
| r_connectTimeout: "reachable s \<Longrightarrow> reachable (connectTimeout s)"
| r_disconnect: "reachable s \<Longrightarrow> reachable (disconnect s)"
| r_findMatch: "reachable s \<Longrightarrow> reachable (findMatch s)"
| r_searchTimeout: "reachable s \<Longrightarrow> reachable (searchTimeout opp room s)"
| r_startTimeout: "reachable s \<Longrightarrow> reachable (startTimeout s)"
| r_cancelMatchmaking: "reachable s \<Longrightarrow> reachable (cancelMatchmaking s)"
| r_makeMove: "reachable s \<Longrightarrow> reachable (snd (makeMove pos s))"
| r_opponentTimeout: "reachable s \<Longrightarrow> reachable (opponentTimeout r s)"
| r_resetGame: "reachable s \<Longrightarrow> reachable (resetGame_online s)"
| r_leaveGame: "reachable s \<Longrightarrow> reachable (leaveGame s)"

section \<open>The specification's notions\<close>

text \<open>
  The words of the specification, for comparison: the eight fixed triples in scan order, and
  a line all of whose cells carry the mark \<open>m\<close>.
\<close>

definition fixedLines :: "nat list list" where
  "fixedLines =
     [[0, 1, 2], [3, 4, 5], [6, 7, 8],
      [0, 3, 6], [1, 4, 7], [2, 5, 8],
      [0, 4, 8], [2, 4, 6]]"

definition lineHolds :: "board \<Rightarrow> mark \<Rightarrow> nat list \<Rightarrow> bool" where
  "lineHolds b m l = list_all (\<lambda>i. i < length b \<and> b ! i = Some m) l"

definition noLine :: "board \<Rightarrow> nat list list \<Rightarrow> bool" where
  "noLine b ls = list_all (\<lambda>l. \<not> lineHolds b MarkX l \<and> \<not> lineHolds b MarkO l) ls"

definition boardFull :: "board \<Rightarrow> bool" where
  "boardFull b = list_all (\<lambda>c. c \<noteq> None) b"


text \<open>
  An illegal move of the online session, in the specification's words: no game state, a
  game that is over, an occupied target cell, or not the caller's turn. A placed move: the
  caller's mark is on the chosen cell, nothing else on the board changed, the current player
  switched and the new board is appended to the history.
\<close>

definition illegalMove :: "nat \<Rightarrow> onlineService \<Rightarrow> bool" where
  "illegalMove pos s =
     (case gameState s of
        None \<Rightarrow> True
      | Some g \<Rightarrow>
          oGameResult g \<noteq> None \<or> oBoard g ! pos \<noteq> None \<or> Some (oCurrentPlayer g) \<noteq> playerSymbol s)"

definition movePlaced :: "nat \<Rightarrow> onlineService \<Rightarrow> onlineService \<Rightarrow> bool" where
  "movePlaced pos s s' =
     (case (gameState s, gameState s') of
        (Some g, Some g') \<Rightarrow>
          oBoard g' = (oBoard g)[pos := playerSymbol s]
          \<and> oBoard g' ! pos = Some (oCurrentPlayer g)
          \<and> oCurrentPlayer g' \<noteq> oCurrentPlayer g
          \<and> oMoveHistory g' = oMoveHistory g @ [oBoard g']
      | _ \<Rightarrow> False)"

text \<open>
  What every state of the service satisfies: the player's symbol is never \<^verbatim>\<open>'O'\<close> (the
  service only ever assigns \<^verbatim>\<open>'X'\<close>), and the board of a game has nine cells.
\<close>

definition serviceInv :: "onlineService \<Rightarrow> bool" where
  "serviceInv s =
     (playerSymbol s \<noteq> Some MarkO
      \<and> (case gameState s of None \<Rightarrow> True | Some g \<Rightarrow> length (oBoard g) = 9))"

text \<open>A session in which a match has just been found.\<close>

definition sessionFound :: onlineService where
  "sessionFound = searchTimeout 0 ''room_1'' (findMatch (connectTimeout (connect newService)))"

text \<open>
  The opponent's mark, two single-player configurations (the AI moves first; the human moves
  first), an empty statistics store, and games played through the component's own handlers:
  the AI commits the move it is given, the human clicks a cell.
\<close>

definition otherMark :: "mark \<Rightarrow> mark" where
  "otherMark m = (if m = MarkX then MarkO else MarkX)"

definition cfgAiFirst :: config where
  "cfgAiFirst = \<lparr>gameMode = Single, difficulty = Medium, playerGoesFirst = False\<rparr>"

definition cfgHumanFirst :: config where
  "cfgHumanFirst = \<lparr>gameMode = Single, difficulty = Medium, playerGoesFirst = True\<rparr>"

definition noStats :: statsStore where
  "noStats = (\<lambda>d. None)"

definition aiPlays :: "config \<Rightarrow> int \<Rightarrow> gameBoardState \<Rightarrow> gameBoardState" where
  "aiPlays cfg aiMove s = commitAiMove cfg (gBoard s) aiMove (triggerAiMove s)"

definition undoGame :: gameBoardState where
  "undoGame =
     aiPlays cfgAiFirst 8 (handleCellClick cfgAiFirst 0 (aiPlays cfgAiFirst 4
       (initialState cfgAiFirst noStats)))"

definition wonGame :: gameBoardState where
  "wonGame =
     aiPlays cfgAiFirst 8 (handleCellClick cfgAiFirst 2 (aiPlays cfgAiFirst 0
       (handleCellClick cfgAiFirst 1 (aiPlays cfgAiFirst 4 (initialState cfgAiFirst noStats)))))"

definition humanTurn :: gameBoardState where
  "humanTurn = aiPlays cfgHumanFirst 4 (handleCellClick cfgHumanFirst 0 (initialState cfgHumanFirst noStats))"

text \<open>
  The calibration decision as the specification words it, in exact arithmetic: the targets
  0.40, 0.60 and 0.80, the realised win rate \<open>aiWins / totalGames\<close>, the margin 0.1 and the
  two biased probabilities 0.3 and 0.9 are the rational numbers these decimals denote.
\<close>

definition shouldTryToWin_spec :: "statsStore \<Rightarrow> difficulty \<Rightarrow> rat \<Rightarrow> bool" where
  "shouldTryToWin_spec store d r =
     (let stats = getStats store d;
          target = (case d of Easy \<Rightarrow> 40 / 100 | Medium \<Rightarrow> 60 / 100 | Hard \<Rightarrow> 80 / 100);
          realized = of_nat (aiWins stats) / of_nat (totalGames stats)
      in
        if totalGames stats < 5 then r < target
        else if 1 / 10 < realized - target then r < 3 / 10
        else if 1 / 10 < target - realized then r < 9 / 10
        else r < target)"

text \<open>
  The numbers the code compares with, written out. \<open>targetDouble\<close> is the double nearest to
  0.4, 0.6 and 0.8. \<open>upperThreshold\<close> is the double that \<^verbatim>\<open>targetWinRate + 0.1\<close> yields: 0.5,
  0.7 and 0.9. \<open>lowerThreshold\<close> is the double that \<^verbatim>\<open>targetWinRate - 0.1\<close> yields:
  0.30000000000000004 (the double next above the double 0.3), 0.5 and 0.7000000000000001
  (the double next above the double 0.7). \<open>casualChance\<close> and \<open>tryHardChance\<close> are the doubles
  nearest to 0.3 and 0.9.
\<close>

definition targetDouble :: "difficulty \<Rightarrow> rat" where
  "targetDouble d =
     (case d of Easy \<Rightarrow> 3602879701896397 / 9007199254740992
              | Medium \<Rightarrow> 5404319552844595 / 9007199254740992
              | Hard \<Rightarrow> 3602879701896397 / 4503599627370496)"

definition upperThreshold :: "difficulty \<Rightarrow> rat" where
  "upperThreshold d =
     (case d of Easy \<Rightarrow> 1 / 2
              | Medium \<Rightarrow> 3152519739159347 / 4503599627370496
              | Hard \<Rightarrow> 8106479329266893 / 9007199254740992)"

definition lowerThreshold :: "difficulty \<Rightarrow> rat" where
  "lowerThreshold d =
     (case d of Easy \<Rightarrow> 1351079888211149 / 4503599627370496
              | Medium \<Rightarrow> 1 / 2
              | Hard \<Rightarrow> 6305039478318695 / 9007199254740992)"

definition casualChance :: rat where
  "casualChance = 5404319552844595 / 18014398509481984"

definition tryHardChance :: rat where
  "tryHardChance = 8106479329266893 / 9007199254740992"

text \<open>
  The statistics store after a sequence of finished games at one difficulty, recorded one
  by one from an empty store; ten games of which O won three, and ten of which O won seven.
\<close>

definition recordedGames :: "difficulty \<Rightarrow> outcome list \<Rightarrow> statsStore" where
  "recordedGames d winners =
     foldl (\<lambda>store winner. recordGameResult store d winner) noStats winners"

definition threeOfTen :: "outcome list" where
  "threeOfTen = replicate 3 (Winner MarkO) @ replicate 7 (Winner MarkX)"

definition sevenOfTen :: "outcome list" where
  "sevenOfTen = replicate 7 (Winner MarkO) @ replicate 3 (Winner MarkX)"

text \<open>
  An empty cell completes three-in-a-row for a mark: placing the mark there makes one of the
  eight lines through the cell hold it three times.
\<close>

definition completesLine :: "board \<Rightarrow> mark \<Rightarrow> nat \<Rightarrow> bool" where
  "completesLine b m c =
     (c < length b \<and> b ! c = None
      \<and> list_ex (\<lambda>l. c \<in> set l \<and> lineHolds (b[c := Some m]) m l) fixedLines)"

text \<open>
  A source of randomness that always draws one half, one that always draws one sixteenth,
  and a position of the AI (playing O) with a free win at cell 2.
\<close>

definition halfRng :: rng where
  "halfRng = (\<lambda>n. 1 / 2)"

definition sixteenthRng :: rng where
  "sixteenthRng = (\<lambda>n. 1 / 16)"

definition easyBoard :: board where
  "easyBoard = [Some MarkO, Some MarkO, None, Some MarkX, Some MarkX, None, None, None, Some MarkX]"

definition easyState :: aiGameState where
  "easyState = \<lparr>aiBoard = easyBoard, aiCurrentPlayer = Some MarkO, aiMoveCount = 5,
     aiGameResult = None\<rparr>"

text \<open>
  A position of the AI playing X (it moved first) with a free win at cell 2, on which no
  cell completes a line for O.
\<close>

definition crossBoard :: board where
  "crossBoard = [Some MarkX, Some MarkX, None, Some MarkO, None, None, None, None, Some MarkO]"

section \<open>Evaluating the searches\<close>

text \<open>
  The winner evaluation, the empty cells and the two loops of the alpha-beta search, unfolded
  for a board written as a list of nine cells. They are proved equal to the functions above
  and serve to compute them.
\<close>

definition w3 :: "cell \<Rightarrow> cell \<Rightarrow> cell \<Rightarrow> cell" where
  "w3 a b c = (if a \<noteq> None \<and> a = b \<and> a = c then a else None)"

definition firstOf :: "cell \<Rightarrow> gameResult \<Rightarrow> gameResult" where
  "firstOf w r = (case w of Some m \<Rightarrow> Some (Winner m) | None \<Rightarrow> r)"

definition scan9 :: "cell \<Rightarrow> cell \<Rightarrow> cell \<Rightarrow> cell \<Rightarrow> cell \<Rightarrow> cell \<Rightarrow> cell \<Rightarrow> cell \<Rightarrow> cell \<Rightarrow> gameResult" where
  "scan9 c0 c1 c2 c3 c4 c5 c6 c7 c8 =
    firstOf (w3 c0 c1 c2) (firstOf (w3 c3 c4 c5) (firstOf (w3 c6 c7 c8)
   (firstOf (w3 c0 c3 c6) (firstOf (w3 c1 c4 c7) (firstOf (w3 c2 c5 c8)
   (firstOf (w3 c0 c4 c8) (firstOf (w3 c2 c4 c6)
     (if c0 \<noteq> None \<and> c1 \<noteq> None \<and> c2 \<noteq> None \<and> c3 \<noteq> None \<and> c4 \<noteq> None
           \<and> c5 \<noteq> None \<and> c6 \<noteq> None \<and> c7 \<noteq> None \<and> c8 \<noteq> None
      then Some Draw else None))))))))"

definition ec :: "cell \<Rightarrow> nat \<Rightarrow> nat list \<Rightarrow> nat list" where
  "ec c i rest = (if c = None then i # rest else rest)"

definition maxL :: "board \<Rightarrow> int \<Rightarrow> nat list \<Rightarrow> int \<Rightarrow> num \<Rightarrow> num \<Rightarrow> num \<Rightarrow> int \<times> num" where
  "maxL b d ms bm s al be =
     maxLoop (\<lambda>move a. minimaxWithPruning (b[move := Some MarkO]) (d + 1) False a be) ms bm s al be"

definition minL :: "board \<Rightarrow> int \<Rightarrow> nat list \<Rightarrow> int \<Rightarrow> num \<Rightarrow> num \<Rightarrow> num \<Rightarrow> int \<times> num" where
  "minL b d ms bm s al be =
     minLoop (\<lambda>move bt. minimaxWithPruning (b[move := Some MarkX]) (d + 1) True al bt) ms bm s al be"

definition maxK :: "board \<Rightarrow> int \<Rightarrow> nat \<Rightarrow> nat list \<Rightarrow> int \<Rightarrow> num \<Rightarrow> num \<Rightarrow> num \<Rightarrow> num \<Rightarrow> int \<times> num" where
  "maxK b d m rest bm s al be r =
     (if be \<le> max al r
      then (if s < r then int m else bm, if s < r then r else s)
      else maxL b d rest (if s < r then int m else bm) (if s < r then r else s) (max al r) be)"

definition minK :: "board \<Rightarrow> int \<Rightarrow> nat \<Rightarrow> nat list \<Rightarrow> int \<Rightarrow> num \<Rightarrow> num \<Rightarrow> num \<Rightarrow> num \<Rightarrow> int \<times> num" where
  "minK b d m rest bm s al be r =
     (if min be r \<le> al
      then (if r < s then int m else bm, if r < s then r else s)
      else minL b d rest (if r < s then int m else bm) (if r < s then r else s) al (min be r))"

definition searchNode :: "gameResult \<Rightarrow> board \<Rightarrow> int \<Rightarrow> bool \<Rightarrow> nat list \<Rightarrow> num \<Rightarrow> num \<Rightarrow> int \<times> num" where
  "searchNode w b d isMax ms al be =
     (case w of
        Some (Winner MarkO) \<Rightarrow> (- 1, Fin (10 - d))
      | Some (Winner MarkX) \<Rightarrow> (- 1, Fin (d - 10))
      | Some Draw \<Rightarrow> (- 1, Fin 0)
      | None \<Rightarrow> if isMax then maxL b d ms (- 1) NegInf al be else minL b d ms (- 1) PosInf al be)"

text \<open>
  A checker of bounds on the value of \<open>minimax\<close>: with \<open>up\<close> it establishes that the value is
  at most \<open>v\<close>, without \<open>up\<close> that it is at least \<open>v\<close>, looking at every child where the
  bound needs all of them and at the children in turn where one suffices. The first argument
  bounds the depth; a check that runs out of it fails.
\<close>

definition cmpBound :: "bool \<Rightarrow> int \<Rightarrow> int \<Rightarrow> bool" where
  "cmpBound up s v = (if up then s \<le> v else v \<le> s)"

fun boundCheck :: "nat \<Rightarrow> bool \<Rightarrow> mark \<Rightarrow> mark \<Rightarrow> board \<Rightarrow> int \<Rightarrow> bool \<Rightarrow> int \<Rightarrow> bool"
  and boundChecks :: "nat \<Rightarrow> bool \<Rightarrow> mark \<Rightarrow> mark \<Rightarrow> board \<Rightarrow> int \<Rightarrow> bool \<Rightarrow> int \<Rightarrow> nat list \<Rightarrow> bool"
where
  "boundCheck 0 up ai hu b d isMax v = False"
| "boundCheck (Suc n) up ai hu b d isMax v =
     (let winner = fst (checkWinner_GameBoard b) in
        if winner = Some (Winner ai) then cmpBound up (10 - d) v
        else if winner = Some (Winner hu) then cmpBound up (d - 10) v
        else if winner = Some Draw then cmpBound up 0 v
        else boundChecks n up ai hu b d isMax v (getEmptyCells_GameBoard b))"
| "boundChecks n up ai hu b d isMax v [] = (isMax = up)"
| "boundChecks n up ai hu b d isMax v (c # cs) =
     (if isMax = up
      then (if boundCheck n up ai hu (b[c := Some (if isMax then ai else hu)]) (d + 1) (\<not> isMax) v
            then boundChecks n up ai hu b d isMax v cs else False)
      else (if boundCheck n up ai hu (b[c := Some (if isMax then ai else hu)]) (d + 1) (\<not> isMax) v
            then True else boundChecks n up ai hu b d isMax v cs))"

definition bounded :: "bool \<Rightarrow> num \<Rightarrow> int \<Rightarrow> bool" where
  "bounded up x v = (if up then x \<le> Fin v else Fin v \<le> x)"



definition checkNode :: "gameResult \<Rightarrow> nat \<Rightarrow> bool \<Rightarrow> mark \<Rightarrow> mark \<Rightarrow> board \<Rightarrow> int \<Rightarrow> bool \<Rightarrow> int \<Rightarrow> nat list \<Rightarrow> bool" where
  "checkNode w n up ai hu b d isMax v cs =
     (if w = Some (Winner ai) then cmpBound up (10 - d) v
      else if w = Some (Winner hu) then cmpBound up (d - 10) v
      else if w = Some Draw then cmpBound up 0 v
      else boundChecks n up ai hu b d isMax v cs)"


definition fuel10 :: nat where
  "fuel10 = Suc (Suc (Suc (Suc (Suc (Suc (Suc (Suc (Suc (Suc 0)))))))))"


text \<open>
  A position of the AI (playing O, to move) without a winning move for either side, the Hard
  configuration in which the AI moves first, and the AI's game state on the empty board.
\<close>

definition hardBoard :: board where
  "hardBoard = [Some MarkX, Some MarkO, None, Some MarkO, None, Some MarkX, Some MarkX, None, None]"

definition hardState :: aiGameState where
  "hardState = \<lparr>aiBoard = hardBoard, aiCurrentPlayer = Some MarkO, aiMoveCount = 5,
     aiGameResult = None\<rparr>"

definition cfgHardAiFirst :: config where
  "cfgHardAiFirst = \<lparr>gameMode = Single, difficulty = Hard, playerGoesFirst = False\<rparr>"

definition emptyState :: aiGameState where
  "emptyState = \<lparr>aiBoard = emptyBoard, aiCurrentPlayer = Some MarkO, aiMoveCount = 0,
     aiGameResult = None\<rparr>"

text \<open>
  The Easy configuration in which the human moves first, and a board on which X has already
  completed the top row.
\<close>

definition cfgEasy :: config where
  "cfgEasy = \<lparr>gameMode = Single, difficulty = Easy, playerGoesFirst = True\<rparr>"

definition finishedBoard :: board where
  "finishedBoard = [Some MarkX, Some MarkX, Some MarkX, Some MarkO, Some MarkO, None, None, None, None]"

section \<open>Verification\<close>

lemma lineTest_lineHolds:
  "length l = 3 \<Longrightarrow> (lineTest b l = Some m) = lineHolds b m l"
proof -
  assume "length l = 3"
  then obtain a c d where l: "l = [a, c, d]"
    by (auto simp: numeral_3_eq_3 length_Suc_conv)
  show ?thesis
    unfolding l lineTest_def lineHolds_def jsIndex_def
    by (auto split: option.splits)
qed

lemma scanLines_Some:
  "(scanLines b ls = Some (m, l)) =
     (\<exists>pre post. ls = pre @ l # post \<and> lineTest b l = Some m \<and> list_all (\<lambda>k. lineTest b k = None) pre)"
proof (induction ls)
  case Nil
  then show ?case by simp
next
  case (Cons k ls)
  show ?case
  proof (cases "lineTest b k")
    case None
    have "(\<exists>pre post. k # ls = pre @ l # post \<and> lineTest b l = Some m \<and> list_all (\<lambda>k. lineTest b k = None) pre)
        = (\<exists>pre post. ls = pre @ l # post \<and> lineTest b l = Some m \<and> list_all (\<lambda>k. lineTest b k = None) pre)"
      (is "?L = ?R")
    proof
      assume ?L
      then obtain pre post where h: "k # ls = pre @ l # post" "lineTest b l = Some m"
        "list_all (\<lambda>k. lineTest b k = None) pre" by blast
      show ?R
      proof (cases pre)
        case Nil
        with h None show ?thesis by simp
      next
        case (Cons p pre')
        with h show ?thesis by auto
      qed
    next
      assume ?R
      then obtain pre post where h: "ls = pre @ l # post" "lineTest b l = Some m"
        "list_all (\<lambda>k. lineTest b k = None) pre" by blast
      then have "k # ls = (k # pre) @ l # post \<and> lineTest b l = Some m \<and> list_all (\<lambda>k. lineTest b k = None) (k # pre)"
        using None by simp
      then show ?L by blast
    qed
    with None Cons.IH show ?thesis by simp
  next
    case (Some m')
    have "(\<exists>pre post. k # ls = pre @ l # post \<and> lineTest b l = Some m \<and> list_all (\<lambda>k. lineTest b k = None) pre)
        = (m' = m \<and> k = l)" (is "?L = ?R")
    proof
      assume ?L
      then obtain pre post where h: "k # ls = pre @ l # post" "lineTest b l = Some m"
        "list_all (\<lambda>k. lineTest b k = None) pre" by blast
      show ?R
      proof (cases pre)
        case Nil
        with h Some show ?thesis by simp
      next
        case (Cons p pre')
        with h Some show ?thesis by auto
      qed
    next
      assume ?R
      then have "k # ls = [] @ l # ls \<and> lineTest b l = Some m \<and> list_all (\<lambda>k. lineTest b k = None) []"
        using Some by simp
      then show ?L by blast
    qed
    with Some show ?thesis by auto
  qed
qed

lemma scanLines_None:
  "(scanLines b ls = None) = list_all (\<lambda>k. lineTest b k = None) ls"
  by (induction ls) (auto split: option.splits)

lemma lineTest_None_fixed:
  "list_all (\<lambda>l. length l = 3) ls \<Longrightarrow>
   list_all (\<lambda>k. lineTest b k = None) ls = noLine b ls"
proof (induction ls)
  case Nil
  then show ?case by (simp add: noLine_def)
next
  case (Cons k ls)
  then have k3: "length k = 3" by simp
  have "(lineTest b k = None) = (\<not> lineHolds b MarkX k \<and> \<not> lineHolds b MarkO k)"
    using lineTest_lineHolds[OF k3, of b MarkX] lineTest_lineHolds[OF k3, of b MarkO]
    by (cases "lineTest b k") (auto, metis mark.exhaust)
  with Cons show ?case by (simp add: noLine_def)
qed

lemma fixedLines_3: "list_all (\<lambda>l. length l = 3) fixedLines"
  by (simp add: fixedLines_def)

lemma prefix_3: "fixedLines = pre @ l # post \<Longrightarrow> list_all (\<lambda>l. length l = 3) pre \<and> length l = 3"
proof -
  assume h: "fixedLines = pre @ l # post"
  have "list_all (\<lambda>l. length l = 3) (pre @ l # post)"
    using fixedLines_3 unfolding h .
  then show ?thesis by simp
qed

lemma checkWinner_GameBoard_alt: "checkWinner_GameBoard b = afterScan b (scanLines b fixedLines)"
  by (simp add: checkWinner_GameBoard_def fixedLines_def)

lemma checkWinner_same:
  "checkWinner_AIService b = checkWinner_GameBoard b"
  "checkWinner_EnhancedGameBoard b = checkWinner_GameBoard b"
  "checkWinner_OnlineGameService b = checkWinner_GameBoard b"
  by (simp_all add: checkWinner_AIService_def checkWinner_EnhancedGameBoard_def
      checkWinner_GameBoard_def checkWinner_OnlineGameService_def)

lemma afterScan_win:
  "(afterScan b (scanLines b fixedLines) = (Some (Winner m), Some l)) =
   (\<exists>pre post. fixedLines = pre @ l # post \<and> lineHolds b m l \<and> noLine b pre)"
proof -
  have "(afterScan b (scanLines b fixedLines) = (Some (Winner m), Some l)) = (scanLines b fixedLines = Some (m, l))"
    by (auto simp: afterScan_def split: option.splits)
  also have "\<dots> = (\<exists>pre post. fixedLines = pre @ l # post \<and> lineTest b l = Some m \<and> list_all (\<lambda>k. lineTest b k = None) pre)"
    by (rule scanLines_Some)
  also have "\<dots> = (\<exists>pre post. fixedLines = pre @ l # post \<and> lineHolds b m l \<and> noLine b pre)"
  proof -
    have "\<And>pre post. fixedLines = pre @ l # post \<Longrightarrow>
       (lineTest b l = Some m \<and> list_all (\<lambda>k. lineTest b k = None) pre) = (lineHolds b m l \<and> noLine b pre)"
      using prefix_3 lineTest_lineHolds lineTest_None_fixed by simp
    then show ?thesis by blast
  qed
  finally show ?thesis .
qed

lemma afterScan_draw:
  "(afterScan b (scanLines b fixedLines) = (Some Draw, None)) = (noLine b fixedLines \<and> boardFull b)"
  using scanLines_None[of b fixedLines] lineTest_None_fixed[OF fixedLines_3, of b]
  by (auto simp: afterScan_def boardFull_def split: option.splits)

lemma afterScan_progress:
  "(afterScan b (scanLines b fixedLines) = (None, None)) = (noLine b fixedLines \<and> \<not> boardFull b)"
  using scanLines_None[of b fixedLines] lineTest_None_fixed[OF fixedLines_3, of b]
  by (auto simp: afterScan_def boardFull_def split: option.splits)


subsection \<open>The winner evaluation\<close>

text \<open>
  Claim C1. For every board, the winner evaluation (of \<^verbatim>\<open>GameBoard\<close> and of
  \<^verbatim>\<open>OnlineGameService\<close>) returns the mark \<open>m\<close> and the line \<open>l\<close> exactly when \<open>l\<close> is the
  first of the eight fixed lines, in scan order, whose three cells all hold a mark, and that
  mark is \<open>m\<close>; it returns a draw exactly when no line holds and every cell is non-empty;
  it returns "in progress" exactly when no line holds and some cell is empty. The board
  \<^verbatim>\<open>[X,X,X,_,_,_,_,_,_]\<close> is won by X on \<open>[0,1,2]\<close> and \<^verbatim>\<open>[X,O,X,O,X,O,O,X,O]\<close> is a draw.
\<close>

theorem checkWinner_evaluation:
  "(checkWinner_GameBoard b = (Some (Winner m), Some l))
     = (\<exists>pre post. fixedLines = pre @ l # post \<and> lineHolds b m l \<and> noLine b pre)
   \<and> (checkWinner_GameBoard b = (Some Draw, None)) = (noLine b fixedLines \<and> boardFull b)
   \<and> (checkWinner_GameBoard b = (None, None)) = (noLine b fixedLines \<and> \<not> boardFull b)
   \<and> checkWinner_OnlineGameService b = checkWinner_GameBoard b
   \<and> checkWinner_GameBoard
        [Some MarkX, Some MarkX, Some MarkX, None, None, None, None, None, None]
       = (Some (Winner MarkX), Some [0, 1, 2])
   \<and> checkWinner_GameBoard
        [Some MarkX, Some MarkO, Some MarkX, Some MarkO, Some MarkX, Some MarkO,
         Some MarkO, Some MarkX, Some MarkO]
       = (Some Draw, None)"
proof -
  have ex1: "checkWinner_GameBoard
        [Some MarkX, Some MarkX, Some MarkX, None, None, None, None, None, None]
       = (Some (Winner MarkX), Some [0, 1, 2])"
    by (simp add: checkWinner_GameBoard_def afterScan_def lineTest_def jsIndex_def)
  have ex2: "checkWinner_GameBoard
        [Some MarkX, Some MarkO, Some MarkX, Some MarkO, Some MarkX, Some MarkO,
         Some MarkO, Some MarkX, Some MarkO]
       = (Some Draw, None)"
    by (simp add: checkWinner_GameBoard_def afterScan_def lineTest_def jsIndex_def)
  show ?thesis
    using afterScan_win[of b m l] afterScan_draw[of b] afterScan_progress[of b]
      checkWinner_same(3)[of b] ex1 ex2
    by (simp only: checkWinner_GameBoard_alt)
qed

text \<open>
  Claim C10. The four copies of the winner evaluation, in \<^verbatim>\<open>AIService\<close>, in the component
  \<^verbatim>\<open>EnhancedGameBoard\<close>, in the component \<^verbatim>\<open>GameBoard\<close> and in \<^verbatim>\<open>OnlineGameService\<close>,
  return the same winner and the same winning line on every board.
\<close>

theorem checkWinner_copies_agree:
  "checkWinner_AIService b = checkWinner_EnhancedGameBoard b
   \<and> checkWinner_EnhancedGameBoard b = checkWinner_GameBoard b
   \<and> checkWinner_GameBoard b = checkWinner_OnlineGameService b"
  by (simp add: checkWinner_AIService_def checkWinner_EnhancedGameBoard_def
      checkWinner_GameBoard_def checkWinner_OnlineGameService_def)

subsection \<open>Moves of the online session\<close>

lemma makeMove_inv: "serviceInv s \<Longrightarrow> serviceInv (snd (makeMove pos s))"
  by (auto simp: serviceInv_def makeMove_def clearOpponentMoveTimeout_def Let_def
      split: option.splits prod.splits)

lemma executeOpponentMove_inv: "serviceInv s \<Longrightarrow> serviceInv (executeOpponentMove r s)"
  by (auto simp: serviceInv_def executeOpponentMove_def Let_def
      split: option.splits prod.splits)

lemma reachable_inv: "reachable s \<Longrightarrow> serviceInv s"
proof (induction rule: reachable.induct)
  case r_new
  show ?case by (simp add: serviceInv_def newService_def)
next
  case (r_makeMove s pos)
  then show ?case by (simp add: makeMove_inv)
next
  case (r_opponentTimeout s r)
  then have "serviceInv (s\<lparr>opponentMoveTimeout := False\<rparr>)"
    by (simp add: serviceInv_def)
  then show ?case
    using r_opponentTimeout by (simp add: opponentTimeout_def executeOpponentMove_inv)
next
  case (r_searchTimeout s opp room)
  then show ?case by (simp add: serviceInv_def searchTimeout_def freshGame_def)
next
  case (r_resetGame s)
  then show ?case
    by (simp add: serviceInv_def resetGame_online_def freshGame_def clearOpponentMoveTimeout_def)
qed (simp_all add: serviceInv_def connect_def connectTimeout_def disconnect_def findMatch_def
      startTimeout_def cancelMatchmaking_def leaveGame_def clearOpponentMoveTimeout_def
      clearMatchmakingTimeout_def)

lemma makeMove_illegal:
  "serviceInv s \<Longrightarrow> pos < 9 \<Longrightarrow> illegalMove pos s \<Longrightarrow> makeMove pos s = (False, s)"
  by (auto simp: serviceInv_def illegalMove_def makeMove_def jsIndex_def split: option.splits)

lemma makeMove_legal:
  assumes "serviceInv s" "pos < 9" "\<not> illegalMove pos s"
  shows "fst (makeMove pos s) \<and> movePlaced pos s (snd (makeMove pos s))"
proof -
  from assms(3) obtain g where g: "gameState s = Some g" "oGameResult g = None"
    "oBoard g ! pos = None" "playerSymbol s = Some (oCurrentPlayer g)"
    by (auto simp: illegalMove_def split: option.splits)
  from assms(1) g have len: "length (oBoard g) = 9" and cur: "oCurrentPlayer g = MarkX"
    by (auto simp: serviceInv_def intro: mark.exhaust)
  show ?thesis
    using g len cur assms(2)
    by (auto simp: makeMove_def movePlaced_def jsIndex_def clearOpponentMoveTimeout_def Let_def
        split: prod.splits option.splits)
qed

text \<open>
  Claim C7. In every state the online service can reach and for every cell index,
  \<^verbatim>\<open>makeMove\<close> returns false exactly when the move is illegal (no game state, game over,
  target cell occupied, or not the caller's turn), and then the whole service state is
  unchanged; for a legal move it returns true, the caller's mark is placed on the chosen
  cell and the current player is switched.
\<close>

theorem makeMove_validation:
  assumes "reachable s" and "pos < 9"
  shows "fst (makeMove pos s) = (\<not> illegalMove pos s)
         \<and> (if illegalMove pos s then snd (makeMove pos s) = s
             else movePlaced pos s (snd (makeMove pos s)))"
  using makeMove_illegal[OF reachable_inv[OF assms(1)] assms(2)]
        makeMove_legal[OF reachable_inv[OF assms(1)] assms(2)]
  by (cases "illegalMove pos s") auto

lemma sessionFound_reachable: "reachable sessionFound"
  unfolding sessionFound_def by (intro reachable.intros)

theorem makeMove_validation_witness:
  "reachable sessionFound \<and> (4::nat) < 9
   \<and> \<not> illegalMove 4 sessionFound \<and> fst (makeMove 4 sessionFound)
   \<and> movePlaced 4 sessionFound (snd (makeMove 4 sessionFound))
   \<and> illegalMove 4 (snd (makeMove 4 sessionFound))
   \<and> makeMove 4 (snd (makeMove 4 sessionFound)) = (False, snd (makeMove 4 sessionFound))"
proof -
  have r1: "reachable sessionFound" by (rule sessionFound_reachable)
  have r2: "reachable (snd (makeMove 4 sessionFound))" by (rule r_makeMove[OF r1])
  have n: "(4::nat) < 9" by simp
  have legal: "\<not> illegalMove 4 sessionFound"
    by (simp add: illegalMove_def sessionFound_def searchTimeout_def findMatch_def
        connectTimeout_def connect_def newService_def clearMatchmakingTimeout_def freshGame_def)
  have illegal: "illegalMove 4 (snd (makeMove 4 sessionFound))"
    using makeMove_validation[OF r1 n] legal
    by (auto simp: movePlaced_def illegalMove_def split: option.splits)
  show ?thesis
    using makeMove_validation[OF r1 n] makeMove_validation[OF r2 n] r1 legal illegal
    by (auto simp: prod_eq_iff)
qed

subsection \<open>Turn timer, undo and the recorded result\<close>

lemmas game_defs = aiPlays_def commitAiMove_def triggerAiMove_def handleCellClick_def
  initialState_def stopTimer_def finishGame_def checkWinner_GameBoard_def afterScan_def
  lineTest_def jsIndex_def humanSymbol_def aiSymbol_def getStartingPlayer_def
  cfgAiFirst_def cfgHumanFirst_def noStats_def Let_def

lemma replicate9: "replicate 9 x = [x, x, x, x, x, x, x, x, x]"
  by (simp add: eval_nat_numeral)

lemma undoGame_eq:
  "undoGame =
    \<lparr>gBoard = [Some MarkO, None, None, None, Some MarkX, None, None, None, Some MarkX],
     gCurrentPlayer = MarkO, gGameResult = None, gIsAiThinking = False,
     gAiThinkingProgress = 0,
     gMoveHistory =
       [[None, None, None, None, None, None, None, None, None],
        [None, None, None, None, Some MarkX, None, None, None, None],
        [Some MarkO, None, None, None, Some MarkX, None, None, None, None],
        [Some MarkO, None, None, None, Some MarkX, None, None, None, Some MarkX]],
     gWinningLine = None, gAiShouldTryToWin = True, gTurnTimeLeft = 3,
     gIsTimerRunning = False, gStats = noStats\<rparr>"
  unfolding undoGame_def
  by (simp add: game_defs replicate9)

text \<open>
  Claim C5, evaluated where it fails. Single-player mode, the AI moves first (it plays X, the
  human plays O). After the AI's move, the human's move and the AI's reply it is the human's
  turn, with four boards in the history. Undo removes two plies (two boards remain, the board
  shows only the AI's first move), but the current player is set to X, the AI's mark: the
  turn is not left with the human.
\<close>

theorem undo_ai_first:
  "humanSymbol cfgAiFirst = MarkO \<and> aiSymbol cfgAiFirst = MarkX
   \<and> gCurrentPlayer undoGame = MarkO
   \<and> length (gMoveHistory undoGame) = 4
   \<and> length (gMoveHistory (undoMove cfgAiFirst undoGame)) = 2
   \<and> gBoard (undoMove cfgAiFirst undoGame)
       = [None, None, None, None, Some MarkX, None, None, None, None]
   \<and> gCurrentPlayer (undoMove cfgAiFirst undoGame) = MarkX"
  unfolding undoGame_eq
  by (simp add: undoMove_def stopTimer_def getStartingPlayer_def humanSymbol_def aiSymbol_def
      cfgAiFirst_def Let_def TURN_TIME_LIMIT_def)

theorem undo_ai_first_witness:
  "gCurrentPlayer (undoMove cfgAiFirst undoGame) = aiSymbol cfgAiFirst
   \<and> gCurrentPlayer (undoMove cfgAiFirst undoGame) \<noteq> humanSymbol cfgAiFirst"
  using undo_ai_first by simp

text \<open>
  In general \<^verbatim>\<open>undoMove\<close>, when it acts, leaves X to move; with the human moving first (the
  human plays X) it removes two plies from a history of at least two plies and leaves the
  turn with the human.
\<close>

lemma undoMove_current_player:
  "\<not> (length (gMoveHistory s) \<le> 1 \<or> gGameResult s \<noteq> None \<or> gIsAiThinking s) \<Longrightarrow>
   gCurrentPlayer (undoMove cfg s) = MarkX"
  by (simp add: undoMove_def Let_def getStartingPlayer_def)

lemma undoMove_human_first:
  assumes "gameMode cfg = Single" and "playerGoesFirst cfg"
    and "3 \<le> length (gMoveHistory s)" and "gGameResult s = None" and "\<not> gIsAiThinking s"
  shows "length (gMoveHistory (undoMove cfg s)) = length (gMoveHistory s) - 2
         \<and> gCurrentPlayer (undoMove cfg s) = humanSymbol cfg"
  using assms
  by (auto simp: undoMove_def Let_def getStartingPlayer_def humanSymbol_def stopTimer_def
      numeral_2_eq_2)

lemma jsDiv_0_1: "jsDiv 0 1 = 0"
  by (simp add: jsDiv_def jsRound_def)

text \<open>
  Claim C9, evaluated where it fails. Single-player mode, the AI moves first and plays X. The
  AI completes the diagonal \<open>[0, 4, 8]\<close> and wins; the handler records the result with the
  winner X, and \<^verbatim>\<open>recordGameResult\<close> counts it as a win of the player, not of the AI:
  one game, no AI win, one player win, win rate 0.
\<close>

theorem record_ai_win_as_X:
  "aiSymbol cfgAiFirst = MarkX
   \<and> gGameResult wonGame = Some (Winner MarkX)
   \<and> gWinningLine wonGame = Some [0, 4, 8]
   \<and> getStats (gStats wonGame) Medium
       = \<lparr>totalGames = 1, aiWins = 0, playerWins = 1, draws = 0, winRate = 0\<rparr>"
  unfolding wonGame_def
  by (simp add: game_defs replicate9 recordGameResult_def getStats_def defaultStats_def jsDiv_0_1)

theorem record_ai_win_as_X_witness:
  "aiWins (getStats (gStats wonGame) Medium) = 0
   \<and> playerWins (getStats (gStats wonGame) Medium) = 1"
  using record_ai_win_as_X by simp

text \<open>
  In general \<^verbatim>\<open>recordGameResult\<close> adds one game, adds one to the draws on a draw, to the AI's
  wins when the winner is O and to the player's wins when the winner is X, and sets the win
  rate to the quotient of the AI's wins by the games.
\<close>

lemma recordGameResult_counts:
  "getStats (recordGameResult store d winner) d =
     \<lparr>totalGames = totalGames (getStats store d) + 1,
      aiWins = aiWins (getStats store d) + (if winner = Winner MarkO then 1 else 0),
      playerWins = playerWins (getStats store d) + (if winner = Winner MarkX then 1 else 0),
      draws = draws (getStats store d) + (if winner = Draw then 1 else 0),
      winRate = jsDiv (of_nat (aiWins (getStats store d) + (if winner = Winner MarkO then 1 else 0)))
                      (of_nat (totalGames (getStats store d) + 1))\<rparr>"
proof (cases winner)
  case (Winner m)
  then show ?thesis
    by (cases m) (simp_all add: recordGameResult_def getStats_def Let_def)
next
  case Draw
  then show ?thesis
    by (simp add: recordGameResult_def getStats_def Let_def)
qed

lemma tick_stopped: "\<not> gIsTimerRunning s \<Longrightarrow> (timerTick cfg ^^ n) s = s"
  by (induction n) (simp_all add: timerTick_def)

lemma other_symbol:
  "gameMode cfg = Single \<Longrightarrow> aiSymbol cfg = otherMark (humanSymbol cfg)"
  by (simp add: aiSymbol_def humanSymbol_def otherMark_def)

lemma three_ticks:
  assumes "gGameResult s = None" "\<not> gIsAiThinking s" "isCurrentPlayerHuman cfg s"
  shows "timerTick cfg (startTimer cfg s) = s\<lparr>gTurnTimeLeft := 2, gIsTimerRunning := True\<rparr>"
    and "(timerTick cfg ^^ 2) (startTimer cfg s) = s\<lparr>gTurnTimeLeft := 1, gIsTimerRunning := True\<rparr>"
    and "(timerTick cfg ^^ 3) (startTimer cfg s)
         = s\<lparr>gCurrentPlayer := otherMark (gCurrentPlayer s), gTurnTimeLeft := 0, gIsTimerRunning := False\<rparr>"
  using assms
  by (auto simp: eval_nat_numeral timerTick_def startTimer_def stopTimer_def handleTimeUp_def
      TURN_TIME_LIMIT_def isCurrentPlayerHuman_def otherMark_def aiSymbol_def humanSymbol_def
      split: if_splits)

text \<open>
  Claim C6. In a game that is not over, on a human player's turn, the turn timer is started
  and nobody moves. After \<open>n\<close> firings of the timer's interval the board, the move history
  and the (absent) result are what they were; the current player is still the same before
  the third firing, and is the opponent from the third firing on, however many firings
  follow: the turn is switched exactly once and no mark is placed.
\<close>

theorem timeout_forfeits_turn:
  assumes "gGameResult s = None" and "\<not> gIsAiThinking s" and "isCurrentPlayerHuman cfg s"
  shows "gBoard ((timerTick cfg ^^ n) (startTimer cfg s)) = gBoard s
         \<and> gMoveHistory ((timerTick cfg ^^ n) (startTimer cfg s)) = gMoveHistory s
         \<and> gGameResult ((timerTick cfg ^^ n) (startTimer cfg s)) = None
         \<and> gCurrentPlayer ((timerTick cfg ^^ n) (startTimer cfg s))
             = (if n < 3 then gCurrentPlayer s else otherMark (gCurrentPlayer s))"
proof -
  note t = three_ticks[OF assms]
  consider "n = 0" | "n = 1" | "n = 2" | "3 \<le> n" by linarith
  then show ?thesis
  proof cases
    case 1
    with assms show ?thesis by (simp add: startTimer_def stopTimer_def)
  next
    case 2
    with t(1) assms(1) show ?thesis by simp
  next
    case 3
    with t(2) assms(1) show ?thesis by simp
  next
    case 4
    then obtain m where n: "n = m + 3" by (metis le_add_diff_inverse2)
    have "(timerTick cfg ^^ n) (startTimer cfg s)
          = (timerTick cfg ^^ m) ((timerTick cfg ^^ 3) (startTimer cfg s))"
      unfolding n by (simp only: funpow_add o_apply)
    also have "\<dots> = (timerTick cfg ^^ 3) (startTimer cfg s)"
      by (rule tick_stopped) (simp add: t(3))
    finally show ?thesis using assms(1) 4 by (simp add: t(3))
  qed
qed

theorem timeout_forfeits_turn_witness:
  "gGameResult humanTurn = None \<and> \<not> gIsAiThinking humanTurn
   \<and> isCurrentPlayerHuman cfgHumanFirst humanTurn
   \<and> gCurrentPlayer humanTurn = MarkX
   \<and> gBoard ((timerTick cfgHumanFirst ^^ 5) (startTimer cfgHumanFirst humanTurn))
       = [Some MarkX, None, None, None, Some MarkO, None, None, None, None]
   \<and> gCurrentPlayer ((timerTick cfgHumanFirst ^^ 5) (startTimer cfgHumanFirst humanTurn)) = MarkO
   \<and> gCurrentPlayer ((timerTick cfgHumanFirst ^^ 2) (startTimer cfgHumanFirst humanTurn)) = MarkX"
proof -
  have e: "humanTurn =
    \<lparr>gBoard = [Some MarkX, None, None, None, Some MarkO, None, None, None, None],
     gCurrentPlayer = MarkX, gGameResult = None, gIsAiThinking = False,
     gAiThinkingProgress = 0,
     gMoveHistory =
       [[None, None, None, None, None, None, None, None, None],
        [Some MarkX, None, None, None, None, None, None, None, None],
        [Some MarkX, None, None, None, Some MarkO, None, None, None, None]],
     gWinningLine = None, gAiShouldTryToWin = True, gTurnTimeLeft = 3,
     gIsTimerRunning = False, gStats = noStats\<rparr>"
    unfolding humanTurn_def by (simp add: game_defs replicate9)
  have h: "gGameResult humanTurn = None" "\<not> gIsAiThinking humanTurn"
    "isCurrentPlayerHuman cfgHumanFirst humanTurn"
    by (simp_all add: e isCurrentPlayerHuman_def humanSymbol_def cfgHumanFirst_def)
  show ?thesis
    using h timeout_forfeits_turn[OF h, of 5] timeout_forfeits_turn[OF h, of 2]
    by (simp add: e otherMark_def)
qed

subsection \<open>The calibration decision\<close>

text \<open>
  The rounding at work on the numbers of the calibration: the literal \<^verbatim>\<open>0.1\<close>, the sum
  \<^verbatim>\<open>0.4 + 0.1\<close> (exactly one half), the difference \<^verbatim>\<open>0.4 - 0.1\<close> (the double
  0.30000000000000004, above the double 0.3) and the quotient \<^verbatim>\<open>3 / 10\<close> (the double
  0.3).
\<close>

lemma jsRound_examples:
  "jsLit (1 / 10) = 3602879701896397 / 36028797018963968"
  "jsAdd (jsLit (40 / 100)) (jsLit (1 / 10)) = 1 / 2"
  "jsSub (jsLit (40 / 100)) (jsLit (1 / 10)) = 1351079888211149 / 4503599627370496"
  "jsDiv 3 10 = 5404319552844595 / 18014398509481984"
  "jsLit (3 / 10) = jsDiv 3 10"
  "jsLit (3 / 10) < jsSub (jsLit (40 / 100)) (jsLit (1 / 10))"
  by code_simp+

text \<open>
  The numbers of the calibration are the ones written out above: the three targets, their
  sums with and differences from \<^verbatim>\<open>0.1\<close>, and the two biased probabilities.
\<close>

lemma calibration_doubles:
  "targetWinRate (personalities Easy) = targetDouble Easy"
  "targetWinRate (personalities Medium) = targetDouble Medium"
  "targetWinRate (personalities Hard) = targetDouble Hard"
  "jsAdd (targetDouble Easy) (jsLit (1 / 10)) = upperThreshold Easy"
  "jsAdd (targetDouble Medium) (jsLit (1 / 10)) = upperThreshold Medium"
  "jsAdd (targetDouble Hard) (jsLit (1 / 10)) = upperThreshold Hard"
  "jsSub (targetDouble Easy) (jsLit (1 / 10)) = lowerThreshold Easy"
  "jsSub (targetDouble Medium) (jsLit (1 / 10)) = lowerThreshold Medium"
  "jsSub (targetDouble Hard) (jsLit (1 / 10)) = lowerThreshold Hard"
  "jsLit (3 / 10) = casualChance"
  "jsLit (9 / 10) = tryHardChance"
  by code_simp+

lemma shouldAITryToWin_unfold:
  "shouldAITryToWin store d r =
     (if totalGames (getStats store d) < 5 then r < targetWinRate (personalities d)
      else if jsAdd (targetWinRate (personalities d)) (jsLit (1 / 10)) < winRate (getStats store d)
        then r < jsLit (3 / 10)
      else if winRate (getStats store d) < jsSub (targetWinRate (personalities d)) (jsLit (1 / 10))
        then r < jsLit (9 / 10)
      else r < targetWinRate (personalities d))"
  by (simp add: shouldAITryToWin_def Let_def)

text \<open>
  Claim C8, as amended. For every difficulty, every statistics store and the one random draw
  \<open>r\<close>: with fewer than 5 recorded games the result is \<open>r < target\<close> (the doubles 0.4, 0.6,
  0.8 for Easy, Medium, Hard); from 5 games on it is \<open>r < 0.3\<close> when the stored win rate is
  greater than the double \<^verbatim>\<open>target + 0.1\<close> (0.5, 0.7, 0.9), \<open>r < 0.9\<close> when the stored win rate
  is less than the double \<^verbatim>\<open>target - 0.1\<close> (0.30000000000000004, 0.5, 0.7000000000000001),
  and \<open>r < target\<close> otherwise. So at Easy and Hard a win rate that is below the target by
  exactly 0.1 (the doubles 0.3 and 0.7) already gives \<open>r < 0.9\<close>.
\<close>

theorem shouldAITryToWin_thresholds:
  "shouldAITryToWin store d r =
     (if totalGames (getStats store d) < 5 then r < targetDouble d
      else if upperThreshold d < winRate (getStats store d) then r < casualChance
      else if winRate (getStats store d) < lowerThreshold d then r < tryHardChance
      else r < targetDouble d)"
  unfolding shouldAITryToWin_unfold
  by (cases d) (simp_all only: calibration_doubles)

theorem shouldAITryToWin_thresholds_witness:
  "shouldAITryToWin (recordedGames Easy threeOfTen) Easy (1 / 2)
   \<and> \<not> shouldAITryToWin (recordedGames Easy (replicate 10 (Winner MarkO))) Easy (1 / 2)
   \<and> shouldAITryToWin (recordedGames Easy (replicate 3 (Winner MarkO))) Easy (3 / 8)"
proof -
  have a: "\<not> totalGames (getStats (recordedGames Easy threeOfTen) Easy) < 5
    \<and> \<not> upperThreshold Easy < winRate (getStats (recordedGames Easy threeOfTen) Easy)
    \<and> winRate (getStats (recordedGames Easy threeOfTen) Easy) < lowerThreshold Easy
    \<and> 1 / 2 < tryHardChance"
    by code_simp
  have b: "\<not> totalGames (getStats (recordedGames Easy (replicate 10 (Winner MarkO))) Easy) < 5
    \<and> upperThreshold Easy < winRate (getStats (recordedGames Easy (replicate 10 (Winner MarkO))) Easy)
    \<and> \<not> 1 / 2 < casualChance"
    by code_simp
  have c: "totalGames (getStats (recordedGames Easy (replicate 3 (Winner MarkO))) Easy) < 5
    \<and> 3 / 8 < targetDouble Easy"
    by code_simp
  show ?thesis
    using shouldAITryToWin_thresholds[of "recordedGames Easy threeOfTen" Easy "1 / 2"]
      shouldAITryToWin_thresholds[of "recordedGames Easy (replicate 10 (Winner MarkO))" Easy "1 / 2"]
      shouldAITryToWin_thresholds[of "recordedGames Easy (replicate 3 (Winner MarkO))" Easy "3 / 8"]
      a b c
    by simp
qed

text \<open>
  Claim C8 fails as stated: after ten Easy games of which the AI (as O) won three, the
  realised win rate 3/10 is below the target 0.40 by exactly 0.1, not by more, so the claim
  gives \<open>r < 0.40\<close>, which is false for the draw one half. The code compares the stored double
  0.3 with \<^verbatim>\<open>0.4 - 0.1\<close>, the double 0.30000000000000004, takes the try-harder branch and
  returns \<open>r < 0.9\<close>, which is true.
\<close>

theorem tenth_below_target_tries_hard:
  "totalGames (getStats (recordedGames Easy threeOfTen) Easy) = 10
   \<and> aiWins (getStats (recordedGames Easy threeOfTen) Easy) = 3
   \<and> winRate (getStats (recordedGames Easy threeOfTen) Easy) = jsDiv 3 10
   \<and> \<not> shouldTryToWin_spec (recordedGames Easy threeOfTen) Easy (1 / 2)
   \<and> shouldAITryToWin (recordedGames Easy threeOfTen) Easy (1 / 2)"
  by code_simp

text \<open>
  The same at Hard: with seven AI wins in ten games the stored double 0.7 is less than
  \<^verbatim>\<open>0.8 - 0.1\<close>, the double 0.7000000000000001, and the draw 0.84375 gives a different
  answer under the two readings. At Medium the difference \<^verbatim>\<open>0.6 - 0.1\<close> is exactly one half,
  and five AI wins in ten games stay on the base probability: the draw 0.875 is refused
  under both readings.
\<close>

lemma tenth_below_target_hard:
  "totalGames (getStats (recordedGames Hard sevenOfTen) Hard) = 10
   \<and> aiWins (getStats (recordedGames Hard sevenOfTen) Hard) = 7
   \<and> \<not> shouldTryToWin_spec (recordedGames Hard sevenOfTen) Hard (27 / 32)
   \<and> shouldAITryToWin (recordedGames Hard sevenOfTen) Hard (27 / 32)"
  by code_simp

lemma tenth_below_target_medium:
  "winRate (getStats (recordedGames Medium (replicate 5 (Winner MarkO) @ replicate 5 (Winner MarkX))) Medium)
     = lowerThreshold Medium
   \<and> \<not> shouldTryToWin_spec (recordedGames Medium (replicate 5 (Winner MarkO) @ replicate 5 (Winner MarkX))) Medium (7 / 8)
   \<and> \<not> shouldAITryToWin (recordedGames Medium (replicate 5 (Winner MarkO) @ replicate 5 (Winner MarkX))) Medium (7 / 8)"
  by code_simp

subsection \<open>Taking a free win\<close>

lemma scan_wins:
  "list_ex (\<lambda>l. lineTest b l = Some m) ls \<Longrightarrow>
   list_all (\<lambda>l. lineTest b l = None \<or> lineTest b l = Some m) ls \<Longrightarrow>
   fst (afterScan b (scanLines b ls)) = Some (Winner m)"
  by (induction ls) (auto simp: afterScan_def split: option.splits if_splits)

lemma scan_won:
  "fst (afterScan b (scanLines b ls)) = Some (Winner m) \<Longrightarrow> list_ex (\<lambda>l. lineTest b l = Some m) ls"
  by (induction ls) (auto simp: afterScan_def split: option.splits if_splits)

lemma lineHolds_update_other:
  "lineHolds (b[c := Some m]) m' l \<Longrightarrow> m' \<noteq> m \<Longrightarrow> lineHolds b m' l"
  unfolding lineHolds_def list_all_iff
  by (metis length_list_update nth_list_update_eq nth_list_update_neq option.inject)

lemma lineHolds_update_notin:
  "lineHolds (b[c := Some m]) m' l \<Longrightarrow> c \<notin> set l \<Longrightarrow> lineHolds b m' l"
  unfolding lineHolds_def list_all_iff
  by (metis length_list_update nth_list_update_neq)

lemma noLine_D: "noLine b ls \<Longrightarrow> l \<in> set ls \<Longrightarrow> \<not> lineHolds b m l"
  unfolding noLine_def list_all_iff by (cases m) auto

lemma isWinning_iff:
  assumes nl: "noLine b fixedLines" and c: "c < length b" "b ! c = None"
  shows "(fst (afterScan (b[c := Some m]) (scanLines (b[c := Some m]) fixedLines)) = Some (Winner m))
         = completesLine b m c"
proof
  assume "fst (afterScan (b[c := Some m]) (scanLines (b[c := Some m]) fixedLines)) = Some (Winner m)"
  then obtain l where l: "l \<in> set fixedLines" "lineTest (b[c := Some m]) l = Some m"
    using scan_won[of "b[c := Some m]" fixedLines m] by (auto simp: list_ex_iff)
  have l3: "length l = 3" using l(1) fixedLines_3 by (auto simp: list_all_iff)
  then have h: "lineHolds (b[c := Some m]) m l" using l(2) lineTest_lineHolds by simp
  have "c \<in> set l" using lineHolds_update_notin[OF h] noLine_D[OF nl l(1)] by blast
  then show "completesLine b m c"
    using c h l(1) by (auto simp: completesLine_def list_ex_iff)
next
  assume cl: "completesLine b m c"
  then obtain l where l: "l \<in> set fixedLines" "lineHolds (b[c := Some m]) m l"
    by (auto simp: completesLine_def list_ex_iff)
  have l3: "length l = 3" using l(1) fixedLines_3 by (auto simp: list_all_iff)
  have ex: "list_ex (\<lambda>l. lineTest (b[c := Some m]) l = Some m) fixedLines"
    using l l3 lineTest_lineHolds by (auto simp: list_ex_iff)
  have all: "list_all (\<lambda>l. lineTest (b[c := Some m]) l = None \<or> lineTest (b[c := Some m]) l = Some m) fixedLines"
    unfolding list_all_iff
  proof
    fix k assume k: "k \<in> set fixedLines"
    have k3: "length k = 3" using k fixedLines_3 by (auto simp: list_all_iff)
    show "lineTest (b[c := Some m]) k = None \<or> lineTest (b[c := Some m]) k = Some m"
    proof (cases "lineTest (b[c := Some m]) k")
      case None
      then show ?thesis by simp
    next
      case (Some m')
      then have h: "lineHolds (b[c := Some m]) m' k" using k3 lineTest_lineHolds by simp
      have "m' = m" using lineHolds_update_other[OF h] noLine_D[OF nl k] by blast
      with Some show ?thesis by simp
    qed
  qed
  show "fst (afterScan (b[c := Some m]) (scanLines (b[c := Some m]) fixedLines)) = Some (Winner m)"
    by (rule scan_wins[OF ex all])
qed

lemma isWinningMove_iff:
  "noLine b fixedLines \<Longrightarrow> c < length b \<Longrightarrow> b ! c = None \<Longrightarrow>
   isWinningMove b c m = completesLine b m c"
  using isWinning_iff by (simp add: isWinningMove_def checkWinner_GameBoard_alt)

lemma emptyCells_GameBoard: "length b = 9 \<Longrightarrow>
  set (getEmptyCells_GameBoard b) = {c. c < length b \<and> b ! c = None}"
  by (auto simp: getEmptyCells_GameBoard_def jsIndex_def)

lemma emptyCells_AIService:
  "set (getEmptyCells_AIService b) = {c. c < length b \<and> b ! c = None}"
  by (auto simp: getEmptyCells_AIService_def)

lemma findWinningMove_GameBoard_takes:
  assumes "length b = 9" "noLine b fixedLines" "completesLine b m c"
  shows "\<exists>w. findWinningMove_GameBoard b m = Some w \<and> completesLine b m w"
proof -
  have cin: "c \<in> set (getEmptyCells_GameBoard b)"
    using assms by (simp add: emptyCells_GameBoard completesLine_def)
  have "isWinningMove b c m" using assms isWinningMove_iff by (simp add: completesLine_def)
  with cin obtain w where w: "findWinningMove_GameBoard b m = Some w"
    unfolding findWinningMove_GameBoard_def by (cases "find (\<lambda>cell. isWinningMove b cell m) (getEmptyCells_GameBoard b)") (auto simp: find_None_iff)
  then have "isWinningMove b w m \<and> w \<in> set (getEmptyCells_GameBoard b)"
    unfolding findWinningMove_GameBoard_def by (auto simp: find_Some_iff)
  then have "completesLine b m w"
    using assms isWinningMove_iff[of b w m] by (simp add: emptyCells_GameBoard)
  with w show ?thesis by blast
qed

lemma findWinningMove_AIService_takes:
  assumes "noLine b fixedLines" "completesLine b m c"
  shows "0 \<le> findWinningMove_AIService b m
         \<and> completesLine b m (nat (findWinningMove_AIService b m))"
proof -
  let ?P = "\<lambda>move. fst (checkWinner_AIService (b[move := Some m])) = Some (Winner m)"
  have P: "\<And>w. w < length b \<Longrightarrow> b ! w = None \<Longrightarrow> ?P w = completesLine b m w"
    using isWinning_iff[OF assms(1)] by (simp add: checkWinner_same checkWinner_GameBoard_alt)
  have cin: "c \<in> set (getEmptyCells_AIService b)"
    using assms by (simp add: emptyCells_AIService completesLine_def)
  have "?P c" using assms P by (simp add: completesLine_def)
  with cin obtain w where w: "find ?P (getEmptyCells_AIService b) = Some w"
    by (cases "find ?P (getEmptyCells_AIService b)") (auto simp: find_None_iff)
  then have "?P w \<and> w \<in> set (getEmptyCells_AIService b)"
    by (auto simp: find_Some_iff)
  then have "completesLine b m w" using P by (auto simp: emptyCells_AIService)
  with w show ?thesis by (simp add: findWinningMove_AIService_def)
qed

lemma getAiMove_takes_win:
  assumes "findWinningMove_GameBoard b (aiSymbol cfg) = Some w" "getEmptyCells_GameBoard b \<noteq> []"
   "\<not> rs k < blunderChance (personalities (difficulty cfg))"
  shows "fst (getAiMove cfg True rs k b) = int w"
  using assms by (cases "difficulty cfg") (simp_all add: getAiMove_def Let_def)

lemma getMediumMove_takes_win:
  assumes "findWinningMove_AIService b MarkO \<noteq> - 1" "getEmptyCells_AIService b \<noteq> []" "aiBoard gs = b"
  shows "position (fst (getMediumMove rs k gs)) = findWinningMove_AIService b MarkO"
  using assms by (simp add: getMediumMove_def Let_def)

lemma getHardMove_takes_win:
  assumes "findWinningMove_AIService b MarkO \<noteq> - 1" "getEmptyCells_AIService b \<noteq> []" "aiBoard gs = b"
  shows "position (fst (getHardMove rs k gs)) = findWinningMove_AIService b MarkO"
  using assms by (simp add: getHardMove_def Let_def)

lemma getEasyMove_takes_win:
  assumes "findWinningMove_AIService b MarkO \<noteq> - 1" "getEmptyCells_AIService b \<noteq> []" "aiBoard gs = b"
   "rs k < jsLit (15 / 100)"
  shows "position (fst (getEasyMove rs k gs)) = findWinningMove_AIService b MarkO"
  using assms by (simp add: getEasyMove_def Let_def)

lemma ne_GB:
  assumes "length b = 9" "completesLine b m c"
  shows "getEmptyCells_GameBoard b \<noteq> []"
proof -
  have "c \<in> set (getEmptyCells_GameBoard b)"
    using assms by (simp add: emptyCells_GameBoard completesLine_def)
  then show ?thesis by (cases "getEmptyCells_GameBoard b") simp_all
qed

lemma ne_AI:
  assumes "completesLine b m c"
  shows "getEmptyCells_AIService b \<noteq> []"
proof -
  have "c \<in> set (getEmptyCells_AIService b)"
    using assms by (simp add: emptyCells_AIService completesLine_def)
  then show ?thesis by (cases "getEmptyCells_AIService b") simp_all
qed

lemma getAiMove_win_now:
  assumes "length b = 9" and "noLine b fixedLines" and "completesLine b (aiSymbol cfg) c"
    and "\<not> rs k < blunderChance (personalities (difficulty cfg))"
  shows "0 \<le> fst (getAiMove cfg True rs k b)
         \<and> completesLine b (aiSymbol cfg) (nat (fst (getAiMove cfg True rs k b)))"
proof -
  obtain w where w: "findWinningMove_GameBoard b (aiSymbol cfg) = Some w"
    "completesLine b (aiSymbol cfg) w"
    using findWinningMove_GameBoard_takes[OF assms(1,2,3)] by blast
  have gb: "fst (getAiMove cfg True rs k b) = int w"
    by (rule getAiMove_takes_win[where rs=rs and k=k, OF w(1) ne_GB[OF assms(1,3)] assms(4)])
  show ?thesis
    using w(2) by (simp add: gb)
qed

lemma medium_hard_win_now:
  assumes "noLine b fixedLines" and "completesLine b MarkO c'" and "aiBoard gs = b"
  shows "0 \<le> position (fst (getMediumMove rs k gs))
         \<and> completesLine b MarkO (nat (position (fst (getMediumMove rs k gs))))
         \<and> 0 \<le> position (fst (getHardMove rs k gs))
         \<and> completesLine b MarkO (nat (position (fst (getHardMove rs k gs))))"
proof -
  note ai = findWinningMove_AIService_takes[OF assms(1,2)]
  have nm: "findWinningMove_AIService b MarkO \<noteq> - 1" using ai by linarith
  note med = getMediumMove_takes_win[where rs=rs and k=k, OF nm ne_AI[OF assms(2)] assms(3)]
  note hard = getHardMove_takes_win[where rs=rs and k=k, OF nm ne_AI[OF assms(2)] assms(3)]
  show ?thesis using ai by (simp only: med hard)
qed

lemma easy_win_now:
  assumes "noLine b fixedLines" and "completesLine b MarkO c'" and "aiBoard gs = b"
    and "rs k < jsLit (15 / 100)"
  shows "0 \<le> position (fst (getEasyMove rs k gs))
         \<and> completesLine b MarkO (nat (position (fst (getEasyMove rs k gs))))"
proof -
  note ai = findWinningMove_AIService_takes[OF assms(1,2)]
  have nm: "findWinningMove_AIService b MarkO \<noteq> - 1" using ai by linarith
  note easy = getEasyMove_takes_win[where rs=rs and k=k, OF nm ne_AI[OF assms(2)] assms(3,4)]
  show ?thesis using ai by (simp only: easy)
qed

text \<open>
  Claim C2, as amended. \<^verbatim>\<open>getAiMove\<close> of the component \<^verbatim>\<open>GameBoard\<close>: on every 9-cell
  board with no completed line on which some empty cell completes three-in-a-row for the
  AI's mark (X or O, as the configuration has it), at every difficulty, it returns such a
  cell whenever the blunder check does not fire and the AI is trying to win. \<^verbatim>\<open>AIService\<close>
  (where the AI plays O): on every board with no completed line on which some empty cell
  completes three-in-a-row for O, \<^verbatim>\<open>getMediumMove\<close> and \<^verbatim>\<open>getHardMove\<close> always return such
  a cell, and \<^verbatim>\<open>getEasyMove\<close> returns such a cell when its first draw is below 0.15. The two
  boards are independent of each other.
\<close>

theorem winning_move_taken:
  assumes "length b = 9" and "noLine b fixedLines" and "completesLine b (aiSymbol cfg) c"
    and "\<not> rs k < blunderChance (personalities (difficulty cfg))"
    and "noLine (aiBoard gs) fixedLines" and "completesLine (aiBoard gs) MarkO c'"
  shows "0 \<le> fst (getAiMove cfg True rs k b)
         \<and> completesLine b (aiSymbol cfg) (nat (fst (getAiMove cfg True rs k b)))
         \<and> 0 \<le> position (fst (getMediumMove rs' k' gs))
         \<and> completesLine (aiBoard gs) MarkO (nat (position (fst (getMediumMove rs' k' gs))))
         \<and> 0 \<le> position (fst (getHardMove rs' k' gs))
         \<and> completesLine (aiBoard gs) MarkO (nat (position (fst (getHardMove rs' k' gs))))
         \<and> (if rs' k' < jsLit (15 / 100)
             then 0 \<le> position (fst (getEasyMove rs' k' gs))
               \<and> completesLine (aiBoard gs) MarkO (nat (position (fst (getEasyMove rs' k' gs))))
             else True)"
proof -
  note a = getAiMove_win_now[where rs=rs and k=k, OF assms(1,2,3,4)]
  note b = medium_hard_win_now[where rs=rs' and k=k', OF assms(5,6) refl]
  have c: "rs' k' < jsLit (15 / 100) \<Longrightarrow> 0 \<le> position (fst (getEasyMove rs' k' gs))
               \<and> completesLine (aiBoard gs) MarkO (nat (position (fst (getEasyMove rs' k' gs))))"
    by (rule easy_win_now[where rs=rs' and k=k', OF assms(5,6) refl])
  show ?thesis
  proof (cases "rs' k' < jsLit (15 / 100)")
    case True
    then show ?thesis using a b c[OF True] by simp
  next
    case False
    then show ?thesis using a b by simp
  qed
qed

text \<open>
  An instance: the AI plays X on a board where only X has a free win (cell 2), with the
  Medium tier and every draw one half; \<^verbatim>\<open>AIService\<close> on the board where O has a free win at
  cell 2, with every draw one sixteenth.
\<close>

theorem winning_move_taken_witness:
  "aiSymbol cfgAiFirst = MarkX
   \<and> length crossBoard = 9 \<and> noLine crossBoard fixedLines
   \<and> completesLine crossBoard MarkX 2
   \<and> \<not> list_ex (completesLine crossBoard MarkO) [0..<9]
   \<and> \<not> halfRng 0 < blunderChance (personalities (difficulty cfgAiFirst))
   \<and> noLine (aiBoard easyState) fixedLines
   \<and> completesLine (aiBoard easyState) MarkO 2
   \<and> sixteenthRng 0 < jsLit (15 / 100)
   \<and> fst (getAiMove cfgAiFirst True halfRng 0 crossBoard) = 2
   \<and> position (fst (getMediumMove sixteenthRng 0 easyState)) = 2
   \<and> position (fst (getHardMove sixteenthRng 0 easyState)) = 2
   \<and> position (fst (getEasyMove sixteenthRng 0 easyState)) = 2"
proof -
  have x: "aiSymbol cfgAiFirst = MarkX" "\<not> list_ex (completesLine crossBoard MarkO) [0..<9]"
    by code_simp+
  have h: "length crossBoard = 9" "noLine crossBoard fixedLines"
    "completesLine crossBoard (aiSymbol cfgAiFirst) 2"
    "\<not> halfRng 0 < blunderChance (personalities (difficulty cfgAiFirst))"
    "noLine (aiBoard easyState) fixedLines" "completesLine (aiBoard easyState) MarkO 2"
    by code_simp+
  have t: "sixteenthRng 0 < jsLit (15 / 100)"
    by code_simp
  have v: "fst (getAiMove cfgAiFirst True halfRng 0 crossBoard) = 2"
    "position (fst (getMediumMove sixteenthRng 0 easyState)) = 2"
    "position (fst (getHardMove sixteenthRng 0 easyState)) = 2"
    "position (fst (getEasyMove sixteenthRng 0 easyState)) = 2"
    by code_simp+
  show ?thesis
    using winning_move_taken[where rs=halfRng and k=0 and rs'=sixteenthRng and k'=0, OF h] h x t v
    by simp
qed

text \<open>
  Claim C2 fails as stated: the Easy tier of \<^verbatim>\<open>AIService\<close> has no blunder or casual-play
  layer, and with every draw equal to one half it passes over the free win at cell 2 (the
  draw is not below 0.15), passes over the block and plays cell 6.
\<close>

theorem easy_skips_win:
  "noLine easyBoard fixedLines
   \<and> completesLine easyBoard MarkO 2
   \<and> position (fst (getEasyMove halfRng 0 easyState)) = 6
   \<and> \<not> completesLine easyBoard MarkO 6"
  by code_simp

text \<open>
  Why the boards are those without a completed line: \<^verbatim>\<open>findWinningMove\<close> asks whether
  \<^verbatim>\<open>checkWinner\<close> names the player, and on a board where X already holds the top row it
  names X whatever O places. There the Easy tier of \<^verbatim>\<open>getAiMove\<close>, with every draw one
  half, plays cell 7 although cell 5 would complete O's row.
\<close>

lemma win_now_needs_open_game:
  "aiSymbol cfgEasy = MarkO
   \<and> \<not> noLine finishedBoard fixedLines
   \<and> completesLine finishedBoard MarkO 5
   \<and> \<not> halfRng 0 < blunderChance (personalities (difficulty cfgEasy))
   \<and> fst (getAiMove cfgEasy True halfRng 0 finishedBoard) = 7
   \<and> \<not> completesLine finishedBoard MarkO 7"
  by code_simp

subsection \<open>The searches\<close>

declare minimaxWithPruning.simps [simp del]
declare minimax.simps [simp del]

lemma lineTest9:
  "i < 9 \<Longrightarrow> j < 9 \<Longrightarrow> k < 9 \<Longrightarrow> length b = 9 \<Longrightarrow>
   lineTest b [i, j, k] = w3 (b ! i) (b ! j) (b ! k)"
  by (auto simp: lineTest_def jsIndex_def w3_def split: option.splits)

lemma afterScan_step:
  "fst (afterScan b (case w of Some m \<Rightarrow> Some (m, l) | None \<Rightarrow> r)) = firstOf w (fst (afterScan b r))"
  by (cases w) (simp_all add: firstOf_def afterScan_def)

lemma afterScan_end:
  "fst (afterScan b None) = (if list_all (\<lambda>c. c \<noteq> None) b then Some Draw else None)"
  by (simp add: afterScan_def)

lemma lines9:
  "lineTest [c0, c1, c2, c3, c4, c5, c6, c7, c8] [0, 1, 2] = w3 c0 c1 c2"
  "lineTest [c0, c1, c2, c3, c4, c5, c6, c7, c8] [3, 4, 5] = w3 c3 c4 c5"
  "lineTest [c0, c1, c2, c3, c4, c5, c6, c7, c8] [6, 7, 8] = w3 c6 c7 c8"
  "lineTest [c0, c1, c2, c3, c4, c5, c6, c7, c8] [0, 3, 6] = w3 c0 c3 c6"
  "lineTest [c0, c1, c2, c3, c4, c5, c6, c7, c8] [1, 4, 7] = w3 c1 c4 c7"
  "lineTest [c0, c1, c2, c3, c4, c5, c6, c7, c8] [2, 5, 8] = w3 c2 c5 c8"
  "lineTest [c0, c1, c2, c3, c4, c5, c6, c7, c8] [0, 4, 8] = w3 c0 c4 c8"
  "lineTest [c0, c1, c2, c3, c4, c5, c6, c7, c8] [2, 4, 6] = w3 c2 c4 c6"
  by (simp_all add: lineTest9)

lemma checkWinner9:
  "fst (checkWinner_GameBoard [c0, c1, c2, c3, c4, c5, c6, c7, c8]) = scan9 c0 c1 c2 c3 c4 c5 c6 c7 c8"
  unfolding checkWinner_GameBoard_def scanLines.simps lines9 afterScan_step afterScan_end scan9_def
  by simp

lemma filter_ec:
  "filter (\<lambda>i. b ! i = None) (i # xs) = ec (b ! i) i (filter (\<lambda>i. b ! i = None) xs)"
  by (simp add: ec_def)

lemma emptyCells9_AIService:
  "getEmptyCells_AIService [c0, c1, c2, c3, c4, c5, c6, c7, c8] =
   ec c0 0 (ec c1 1 (ec c2 2 (ec c3 3 (ec c4 4 (ec c5 5 (ec c6 6 (ec c7 7 (ec c8 8 []))))))))"
  unfolding getEmptyCells_AIService_def
  by (simp add: filter_ec eval_nat_numeral del: filter.simps)

lemma emptyCells9_GameBoard:
  "getEmptyCells_GameBoard [c0, c1, c2, c3, c4, c5, c6, c7, c8] =
   ec c0 0 (ec c1 1 (ec c2 2 (ec c3 3 (ec c4 4 (ec c5 5 (ec c6 6 (ec c7 7 (ec c8 8 []))))))))"
proof -
  have len: "length [c0, c1, c2, c3, c4, c5, c6, c7, c8] = 9"
    by simp
  have "getEmptyCells_GameBoard [c0, c1, c2, c3, c4, c5, c6, c7, c8]
        = getEmptyCells_AIService [c0, c1, c2, c3, c4, c5, c6, c7, c8]"
    unfolding getEmptyCells_GameBoard_def getEmptyCells_AIService_def len
    by (rule filter_cong[OF refl]) (auto simp: jsIndex_def)
  then show ?thesis by (simp only: emptyCells9_AIService)
qed

lemma update9:
  "[c0, c1, c2, c3, c4, c5, c6, c7, c8][0 := v] = [v, c1, c2, c3, c4, c5, c6, c7, c8]"
  "[c0, c1, c2, c3, c4, c5, c6, c7, c8][1 := v] = [c0, v, c2, c3, c4, c5, c6, c7, c8]"
  "[c0, c1, c2, c3, c4, c5, c6, c7, c8][2 := v] = [c0, c1, v, c3, c4, c5, c6, c7, c8]"
  "[c0, c1, c2, c3, c4, c5, c6, c7, c8][3 := v] = [c0, c1, c2, v, c4, c5, c6, c7, c8]"
  "[c0, c1, c2, c3, c4, c5, c6, c7, c8][4 := v] = [c0, c1, c2, c3, v, c5, c6, c7, c8]"
  "[c0, c1, c2, c3, c4, c5, c6, c7, c8][5 := v] = [c0, c1, c2, c3, c4, v, c6, c7, c8]"
  "[c0, c1, c2, c3, c4, c5, c6, c7, c8][6 := v] = [c0, c1, c2, c3, c4, c5, v, c7, c8]"
  "[c0, c1, c2, c3, c4, c5, c6, c7, c8][7 := v] = [c0, c1, c2, c3, c4, c5, c6, v, c8]"
  "[c0, c1, c2, c3, c4, c5, c6, c7, c8][8 := v] = [c0, c1, c2, c3, c4, c5, c6, c7, v]"
  by (simp_all add: eval_nat_numeral)

lemma maxL_Nil: "maxL b d [] bm s al be = (bm, s)"
  by (simp add: maxL_def)

lemma minL_Nil: "minL b d [] bm s al be = (bm, s)"
  by (simp add: minL_def)

lemma maxL_Cons:
  "maxL b d (m # rest) bm s al be =
     maxK b d m rest bm s al be (snd (minimaxWithPruning (b[m := Some MarkO]) (d + 1) False al be))"
  by (simp add: maxL_def maxK_def Let_def)

lemma minL_Cons:
  "minL b d (m # rest) bm s al be =
     minK b d m rest bm s al be (snd (minimaxWithPruning (b[m := Some MarkX]) (d + 1) True al be))"
  by (simp add: minL_def minK_def Let_def)

lemma search9:
  "minimaxWithPruning [c0, c1, c2, c3, c4, c5, c6, c7, c8] d isMax al be =
     searchNode (scan9 c0 c1 c2 c3 c4 c5 c6 c7 c8) [c0, c1, c2, c3, c4, c5, c6, c7, c8] d isMax
       (ec c0 0 (ec c1 1 (ec c2 2 (ec c3 3 (ec c4 4 (ec c5 5 (ec c6 6 (ec c7 7 (ec c8 8 []))))))))) al be"
  by (subst minimaxWithPruning.simps)
     (simp only: checkWinner_same checkWinner9 emptyCells9_AIService searchNode_def maxL_def minL_def)

lemmas search_rules = search9 maxL_Nil minL_Nil maxL_Cons minL_Cons update9 scan9_def w3_def
  firstOf_def ec_def less_eq_num_def max_def min_def maxK_def minK_def searchNode_def

lemma emptyBoard_list: "emptyBoard = [None, None, None, None, None, None, None, None, None]"
  by (simp add: emptyBoard_def eval_nat_numeral)

lemma foldl_max_le:
  "(foldl (\<lambda>acc c. max acc (f c)) a cs \<le> (u::num)) = (a \<le> u \<and> (\<forall>c\<in>set cs. f c \<le> u))"
  by (induction cs arbitrary: a) auto

lemma foldl_max_ge:
  "((u::num) \<le> foldl (\<lambda>acc c. max acc (f c)) a cs) = (u \<le> a \<or> (\<exists>c\<in>set cs. u \<le> f c))"
  by (induction cs arbitrary: a) (auto simp: le_max_iff_disj)

lemma foldl_min_le:
  "(foldl (\<lambda>acc c. min acc (f c)) a cs \<le> (u::num)) = (a \<le> u \<or> (\<exists>c\<in>set cs. f c \<le> u))"
  by (induction cs arbitrary: a) (auto simp: min_le_iff_disj)

lemma foldl_min_ge:
  "((u::num) \<le> foldl (\<lambda>acc c. min acc (f c)) a cs) = (u \<le> a \<and> (\<forall>c\<in>set cs. u \<le> f c))"
  by (induction cs arbitrary: a) auto

lemma num_bounds: "NegInf \<le> Fin v" "Fin v \<le> PosInf" "\<not> Fin v \<le> NegInf" "\<not> PosInf \<le> Fin v"
  "(Fin a \<le> Fin b) = (a \<le> b)"
  by (auto simp: less_eq_num_def)

lemma boundChecks_sound:
  assumes chk: "\<And>b d isMax. boundCheck n up ai hu b d isMax v \<Longrightarrow> bounded up (minimax ai hu b d isMax) v"
    and "boundChecks n up ai hu b d isMax v cs"
  shows "if isMax = up
         then \<forall>c\<in>set cs. bounded up (minimax ai hu (b[c := Some (if isMax then ai else hu)]) (d + 1) (\<not> isMax)) v
         else \<exists>c\<in>set cs. bounded up (minimax ai hu (b[c := Some (if isMax then ai else hu)]) (d + 1) (\<not> isMax)) v"
  using assms(2)
proof (induction cs)
  case Nil
  then show ?case by simp
next
  case (Cons c cs)
  show ?case
  proof (cases "isMax = up")
    case True
    with Cons.prems have 1: "boundCheck n up ai hu (b[c := Some (if isMax then ai else hu)]) (d + 1) (\<not> isMax) v"
      and 2: "boundChecks n up ai hu b d isMax v cs"
      by (auto split: if_splits)
    from Cons.IH[OF 2] chk[OF 1] True show ?thesis by simp
  next
    case False
    show ?thesis
    proof (cases "boundCheck n up ai hu (b[c := Some (if isMax then ai else hu)]) (d + 1) (\<not> isMax) v")
      case True
      from chk[OF True] False show ?thesis by simp
    next
      case nb: False
      with Cons.prems False have "boundChecks n up ai hu b d isMax v cs" by simp
      from Cons.IH[OF this] False show ?thesis by auto
    qed
  qed
qed

lemma boundCheck_sound:
  "boundCheck n up ai hu b d isMax v \<Longrightarrow> bounded up (minimax ai hu b d isMax) v"
proof (induction n arbitrary: b d isMax)
  case 0
  then show ?case by simp
next
  case (Suc n)
  let ?w = "fst (checkWinner_GameBoard b)"
  show ?case
  proof (cases "?w = Some (Winner ai) \<or> ?w = Some (Winner hu) \<or> ?w = Some Draw")
    case True
    then show ?thesis
      using Suc.prems
      by (subst minimax.simps) (auto simp: Let_def bounded_def cmpBound_def num_bounds split: if_splits)
  next
    case False
    with Suc.prems have cs: "boundChecks n up ai hu b d isMax v (getEmptyCells_GameBoard b)"
      by (simp add: Let_def)
    note s = boundChecks_sound[OF Suc.IH cs]
    show ?thesis
    proof (cases isMax)
      case True
      have m: "minimax ai hu b d isMax =
        foldl (\<lambda>maxEval cell. max maxEval (minimax ai hu (b[cell := Some ai]) (d + 1) False))
               NegInf (getEmptyCells_GameBoard b)"
        using False True by (subst minimax.simps) (simp add: Let_def)
      show ?thesis
        using s True unfolding m bounded_def
        by (cases up) (auto simp: foldl_max_le foldl_max_ge num_bounds)
    next
      case nm: False
      have m: "minimax ai hu b d isMax =
        foldl (\<lambda>minEval cell. min minEval (minimax ai hu (b[cell := Some hu]) (d + 1) True))
               PosInf (getEmptyCells_GameBoard b)"
        using False nm by (subst minimax.simps) (simp add: Let_def)
      show ?thesis
        using s nm unfolding m bounded_def
        by (cases up) (auto simp: foldl_min_le foldl_min_ge num_bounds)
    qed
  qed
qed

lemma best_unchanged:
  "\<forall>c\<in>set cs. f c \<le> bv \<Longrightarrow>
   foldl (\<lambda>(bestMove, bestValue) cell.
            let moveValue = f cell
            in if bestValue < moveValue then (int cell, moveValue) else (bestMove, bestValue))
     (bm, bv) cs = (bm, (bv::num))"
  by (induction cs) (auto simp: Let_def)

lemma boundCheck9:
  "boundCheck (Suc n) up ai hu [c0, c1, c2, c3, c4, c5, c6, c7, c8] d isMax v =
     checkNode (scan9 c0 c1 c2 c3 c4 c5 c6 c7 c8) n up ai hu [c0, c1, c2, c3, c4, c5, c6, c7, c8] d isMax v
       (ec c0 0 (ec c1 1 (ec c2 2 (ec c3 3 (ec c4 4 (ec c5 5 (ec c6 6 (ec c7 7 (ec c8 8 [])))))))))"
  by (simp only: boundCheck.simps checkWinner9 emptyCells9_GameBoard checkNode_def Let_def)

lemmas check_rules = boundCheck9 update9 scan9_def w3_def firstOf_def ec_def cmpBound_def checkNode_def

lemma opening_corner_lower:
  "ai \<noteq> hu \<Longrightarrow> hu \<noteq> ai \<Longrightarrow>
   boundCheck fuel10 False ai hu [Some ai, None, None, None, None, None, None, None, None] 0 False 0"
  unfolding fuel10_def by (simp add: check_rules del: boundCheck.simps)

lemma opening_upper_4:
  "ai \<noteq> hu \<Longrightarrow> hu \<noteq> ai \<Longrightarrow>
   boundCheck fuel10 True ai hu [None, None, None, None, Some ai, None, None, None, None] 0 False 0"
  unfolding fuel10_def by (simp add: check_rules del: boundCheck.simps)

lemma opening_upper_1:
  "ai \<noteq> hu \<Longrightarrow> hu \<noteq> ai \<Longrightarrow>
   boundCheck fuel10 True ai hu [None, Some ai, None, None, None, None, None, None, None] 0 False 0"
  unfolding fuel10_def by (simp add: check_rules del: boundCheck.simps)

lemma opening_upper_2:
  "ai \<noteq> hu \<Longrightarrow> hu \<noteq> ai \<Longrightarrow>
   boundCheck fuel10 True ai hu [None, None, Some ai, None, None, None, None, None, None] 0 False 0"
  unfolding fuel10_def by (simp add: check_rules del: boundCheck.simps)

lemma opening_upper_3:
  "ai \<noteq> hu \<Longrightarrow> hu \<noteq> ai \<Longrightarrow>
   boundCheck fuel10 True ai hu [None, None, None, Some ai, None, None, None, None, None] 0 False 0"
  unfolding fuel10_def by (simp add: check_rules del: boundCheck.simps)

lemma opening_upper_5:
  "ai \<noteq> hu \<Longrightarrow> hu \<noteq> ai \<Longrightarrow>
   boundCheck fuel10 True ai hu [None, None, None, None, None, Some ai, None, None, None] 0 False 0"
  unfolding fuel10_def by (simp add: check_rules del: boundCheck.simps)

lemma opening_upper_6:
  "ai \<noteq> hu \<Longrightarrow> hu \<noteq> ai \<Longrightarrow>
   boundCheck fuel10 True ai hu [None, None, None, None, None, None, Some ai, None, None] 0 False 0"
  unfolding fuel10_def by (simp add: check_rules del: boundCheck.simps)

lemma opening_upper_7:
  "ai \<noteq> hu \<Longrightarrow> hu \<noteq> ai \<Longrightarrow>
   boundCheck fuel10 True ai hu [None, None, None, None, None, None, None, Some ai, None] 0 False 0"
  unfolding fuel10_def by (simp add: check_rules del: boundCheck.simps)

lemma opening_upper_8:
  "ai \<noteq> hu \<Longrightarrow> hu \<noteq> ai \<Longrightarrow>
   boundCheck fuel10 True ai hu [None, None, None, None, None, None, None, None, Some ai] 0 False 0"
  unfolding fuel10_def by (simp add: check_rules del: boundCheck.simps)

lemma opening_values:
  assumes "ai \<noteq> hu"
  shows "Fin 0 \<le> minimax ai hu (emptyBoard[0 := Some ai]) 0 False"
    and "\<forall>c\<in>set [1, 2, 3, 4, 5, 6, 7, 8]. minimax ai hu (emptyBoard[c := Some ai]) 0 False \<le> Fin 0"
proof -
  have na: "hu \<noteq> ai" using assms by simp
  show "Fin 0 \<le> minimax ai hu (emptyBoard[0 := Some ai]) 0 False"
    using boundCheck_sound[OF opening_corner_lower[OF assms na]]
    by (simp add: bounded_def emptyBoard_list)
  show "\<forall>c\<in>set [1, 2, 3, 4, 5, 6, 7, 8]. minimax ai hu (emptyBoard[c := Some ai]) 0 False \<le> Fin 0"
    using boundCheck_sound[OF opening_upper_1[OF assms na]]
      boundCheck_sound[OF opening_upper_2[OF assms na]]
      boundCheck_sound[OF opening_upper_3[OF assms na]]
      boundCheck_sound[OF opening_upper_4[OF assms na]]
      boundCheck_sound[OF opening_upper_5[OF assms na]]
      boundCheck_sound[OF opening_upper_6[OF assms na]]
      boundCheck_sound[OF opening_upper_7[OF assms na]]
      boundCheck_sound[OF opening_upper_8[OF assms na]]
    by (simp add: bounded_def emptyBoard_list update9)
qed

lemma emptyCells_emptyBoard:
  "getEmptyCells_GameBoard emptyBoard = [0, 1, 2, 3, 4, 5, 6, 7, 8]"
  "getEmptyCells_AIService emptyBoard = [0, 1, 2, 3, 4, 5, 6, 7, 8]"
  by (simp_all add: emptyBoard_list emptyCells9_GameBoard emptyCells9_AIService ec_def)

lemma getBestMove_emptyBoard:
  assumes "ai \<noteq> hu"
  shows "getBestMove ai hu emptyBoard = 0"
proof -
  let ?f = "\<lambda>cell. minimax ai hu (emptyBoard[cell := Some ai]) 0 False"
  let ?step = "\<lambda>(bestMove, bestValue) cell.
            let moveValue = ?f cell
            in if bestValue < moveValue then (int cell, moveValue) else (bestMove, bestValue)"
  note v = opening_values[OF assms]
  have lt: "NegInf < ?f 0"
    using v(1) by (cases "?f 0") (auto simp: less_eq_num_def)
  have rest: "\<forall>c\<in>set [1, 2, 3, 4, 5, 6, 7, 8]. ?f c \<le> ?f 0"
    using v by (meson order_trans)
  have "foldl ?step (- 1, NegInf) [0, 1, 2, 3, 4, 5, 6, 7, 8]
        = foldl ?step (0, ?f 0) [1, 2, 3, 4, 5, 6, 7, 8]"
    using lt by (simp add: Let_def)
  also have "\<dots> = (0, ?f 0)"
    by (rule best_unchanged[OF rest])
  finally show ?thesis
    by (simp add: getBestMove_def emptyCells_emptyBoard)
qed

lemma no_win_on_emptyBoard:
  "findWinningMove_GameBoard emptyBoard m = None"
  "findWinningMove_AIService emptyBoard m = - 1"
  by (simp_all add: findWinningMove_GameBoard_def findWinningMove_AIService_def isWinningMove_def
      emptyCells9_GameBoard emptyCells9_AIService ec_def checkWinner_same checkWinner9
      emptyBoard_list update9 scan9_def w3_def firstOf_def)

lemma symbols_differ: "aiSymbol cfg \<noteq> humanSymbol cfg"
  by (simp add: aiSymbol_def humanSymbol_def)

lemma hard_personality: "difficulty cfg = Hard \<Longrightarrow>
  blunderChance (personalities (difficulty cfg)) = jsLit (3 / 100)"
  by (simp add: personalities_def)

lemma getAiMove_hard_opening:
  assumes "difficulty cfg = Hard"
    and "\<not> rs k < blunderChance (personalities (difficulty cfg))"
    and "\<not> rs (k + 1) < jsLit (15 / 100)"
  shows "fst (getAiMove cfg True rs k emptyBoard) = 0"
  using assms getBestMove_emptyBoard[OF symbols_differ[of cfg]]
  by (simp add: getAiMove_def Let_def emptyCells_emptyBoard no_win_on_emptyBoard)

lemma search_emptyBoard: "minimaxWithPruning emptyBoard 9 True NegInf PosInf = (4, Fin 0)"
  by (simp add: emptyBoard_list search_rules)

lemma getHardMove_opening:
  assumes "aiBoard gs = emptyBoard" and "rs k < jsLit (9 / 10)"
  shows "position (fst (getHardMove rs k gs)) = 4"
  using assms
  by (simp add: getHardMove_def Let_def emptyCells_emptyBoard no_win_on_emptyBoard search_emptyBoard)

text \<open>
  Claim C4, as amended. On the empty board, at the Hard tier, with draws that skip the
  blunder and the suboptimal branch, \<^verbatim>\<open>getAiMove\<close> of the component \<^verbatim>\<open>GameBoard\<close> returns
  cell 0: every opening has the value 0 and \<^verbatim>\<open>getBestMove\<close> keeps the first cell of the
  highest value. \<^verbatim>\<open>getHardMove\<close> of \<^verbatim>\<open>AIService\<close>, with a draw that selects its search,
  returns the centre, cell 4.
\<close>

theorem hard_opening_move:
  assumes "difficulty cfg = Hard"
    and "\<not> rs k < blunderChance (personalities (difficulty cfg))"
    and "\<not> rs (k + 1) < jsLit (15 / 100)"
    and "aiBoard gs = emptyBoard" and "rs' k' < jsLit (9 / 10)"
  shows "fst (getAiMove cfg True rs k emptyBoard) = 0
         \<and> position (fst (getHardMove rs' k' gs)) = 4"
  using getAiMove_hard_opening[where rs=rs and k=k, OF assms(1,2,3)]
    getHardMove_opening[where rs=rs' and k=k', OF assms(4,5)]
  by simp

lemma half_draws:
  "\<not> halfRng 0 < blunderChance (personalities (difficulty cfgHardAiFirst))"
  "\<not> halfRng (0 + 1) < jsLit (15 / 100)"
  "halfRng 0 < jsLit (9 / 10)"
  by code_simp+

theorem hard_opening_move_witness:
  "difficulty cfgHardAiFirst = Hard
   \<and> \<not> halfRng 0 < blunderChance (personalities (difficulty cfgHardAiFirst))
   \<and> \<not> halfRng (0 + 1) < jsLit (15 / 100)
   \<and> aiBoard emptyState = emptyBoard \<and> halfRng 0 < jsLit (9 / 10)
   \<and> fst (getAiMove cfgHardAiFirst True halfRng 0 emptyBoard) = 0
   \<and> position (fst (getHardMove halfRng 0 emptyState)) = 4"
proof -
  have d: "difficulty cfgHardAiFirst = Hard" by (simp add: cfgHardAiFirst_def)
  have e: "aiBoard emptyState = emptyBoard" by (simp add: emptyState_def)
  show ?thesis
    using hard_opening_move[where rs=halfRng and k=0 and rs'=halfRng and k'=0,
        OF d half_draws(1,2) e half_draws(3)] d e half_draws
    by simp
qed

text \<open>
  Claim C4 fails as stated: in the component \<^verbatim>\<open>GameBoard\<close>, Hard tier, AI moving first,
  with every draw equal to one half (no blunder, no suboptimal move), the move on the empty
  board is the corner 0, not the centre 4.
\<close>

theorem hard_opening_is_corner:
  "\<not> halfRng 0 < blunderChance (personalities (difficulty cfgHardAiFirst))
   \<and> \<not> halfRng (0 + 1) < jsLit (15 / 100)
   \<and> fst (getAiMove cfgHardAiFirst True halfRng 0 emptyBoard) = 0
   \<and> fst (getAiMove cfgHardAiFirst True halfRng 0 emptyBoard) \<noteq> 4"
proof -
  have d: "difficulty cfgHardAiFirst = Hard" by (simp add: cfgHardAiFirst_def)
  show ?thesis
    using getAiMove_hard_opening[where rs=halfRng and k=0, OF d half_draws(1,2)] half_draws
    by simp
qed

text \<open>
  The scores of \<^verbatim>\<open>minimaxWithPruning\<close> at a finished game, in terms of its \<open>depth\<close> argument;
  \<^verbatim>\<open>getHardMove\<close> starts the search with \<open>depth = 9\<close>.
\<close>

lemma minimaxWithPruning_terminal:
  "fst (checkWinner_AIService b) = Some (Winner MarkO) \<Longrightarrow>
     minimaxWithPruning b d isMax al be = (- 1, Fin (10 - d))"
  "fst (checkWinner_AIService b) = Some (Winner MarkX) \<Longrightarrow>
     minimaxWithPruning b d isMax al be = (- 1, Fin (d - 10))"
  "fst (checkWinner_AIService b) = Some Draw \<Longrightarrow>
     minimaxWithPruning b d isMax al be = (- 1, Fin 0)"
  by (subst minimaxWithPruning.simps, simp)+

text \<open>
  Claim C3, evaluated where it fails. On the board \<^verbatim>\<open>[X,O,_,O,_,X,X,_,_]\<close> with the AI (O)
  to move, neither side has a winning move, and the search that \<^verbatim>\<open>getHardMove\<close> starts at
  depth 9 returns cell 2 with score 3. A win of the AI three plies from the start scores
  \<open>10 - (9 + 3) = -2\<close> and a win of the opponent four plies from the start scores
  \<open>(9 + 4) - 10 = 3\<close>: the depth is not the number of plies from the start, and the opponent's
  win scores higher than a draw and than the AI's own win. The same search started at depth
  0 returns cell 4 with score 0, and \<^verbatim>\<open>minimax\<close> of the component \<^verbatim>\<open>GameBoard\<close>, which
  \<^verbatim>\<open>getBestMove\<close> starts at depth 0, scores cell 2 as a loss (\<open>-7\<close>) and selects cell 4.
\<close>

theorem hard_search_scores:
  "findWinningMove_AIService hardBoard MarkO = - 1
   \<and> findWinningMove_AIService hardBoard MarkX = - 1
   \<and> minimaxWithPruning hardBoard 9 True NegInf PosInf = (2, Fin 3)
   \<and> position (fst (getHardMove halfRng 0 hardState)) = 2
   \<and> minimaxWithPruning (hardBoard[4 := Some MarkO, 2 := Some MarkX, 7 := Some MarkO])
        (9 + 3) False NegInf PosInf = (- 1, Fin (- 2))
   \<and> minimaxWithPruning
        (hardBoard[2 := Some MarkO, 8 := Some MarkX, 4 := Some MarkO, 7 := Some MarkX])
        (9 + 4) True NegInf PosInf = (- 1, Fin 3)
   \<and> minimaxWithPruning hardBoard 0 True NegInf PosInf = (4, Fin 0)
   \<and> minimax MarkO MarkX (hardBoard[2 := Some MarkO]) 0 False = Fin (- 7)
   \<and> getBestMove MarkO MarkX hardBoard = 4"
proof -
  have 1: "findWinningMove_AIService hardBoard MarkO = - 1"
    "findWinningMove_AIService hardBoard MarkX = - 1"
    by code_simp+
  have 2: "minimaxWithPruning hardBoard 9 True NegInf PosInf = (2, Fin 3)"
    by (simp add: hardBoard_def search_rules)
  have 3: "position (fst (getHardMove halfRng 0 hardState)) = 2"
    using 1 2 half_draws(3)
    by (simp add: getHardMove_def hardState_def Let_def getEmptyCells_AIService_def hardBoard_def)
  have 4: "minimaxWithPruning (hardBoard[4 := Some MarkO, 2 := Some MarkX, 7 := Some MarkO])
        (9 + 3) False NegInf PosInf = (- 1, Fin (- 2))"
    by (simp add: hardBoard_def search_rules)
  have 5: "minimaxWithPruning
        (hardBoard[2 := Some MarkO, 8 := Some MarkX, 4 := Some MarkO, 7 := Some MarkX])
        (9 + 4) True NegInf PosInf = (- 1, Fin 3)"
    by (simp add: hardBoard_def search_rules)
  have 6: "minimaxWithPruning hardBoard 0 True NegInf PosInf = (4, Fin 0)"
    by (simp add: hardBoard_def search_rules)
  have 7: "minimax MarkO MarkX (hardBoard[2 := Some MarkO]) 0 False = Fin (- 7)"
    by code_simp
  have 8: "getBestMove MarkO MarkX hardBoard = 4"
    by code_simp
  show ?thesis using 1 2 3 4 5 6 7 8 by simp
qed

theorem hard_search_scores_witness:
  "fst (minimaxWithPruning hardBoard 9 True NegInf PosInf) = 2
   \<and> snd (minimaxWithPruning hardBoard 9 True NegInf PosInf) = Fin 3"
  using hard_search_scores by simp

end
